theory Spec2Isabelle
  imports Main "HOL-Library.List_Lexorder" "HOL-Library.Char_ord"
begin

section \<open>JavaScript built-ins used by the sources\<close>

text \<open>
  Text is modelled as \<^typ>\<open>string\<close>, one character per code unit of ASCII text.
  The non-ASCII literals of the sources (warning signs and rules in the rendered
  output) are written as their UTF-8 bytes.
\<close>

text \<open>\<^verbatim>\<open>String.prototype.split\<close> with a one-character separator: the pieces between
  the separators, empty pieces kept; the empty string gives one empty piece.\<close>

fun js_split :: "char \<Rightarrow> string \<Rightarrow> string list" where
  "js_split c [] = [[]]"
| "js_split c (x # xs) =
     (if x = c then [] # js_split c xs
      else (case js_split c xs of [] \<Rightarrow> [[x]] | p # ps \<Rightarrow> (x # p) # ps))"

text \<open>\<^verbatim>\<open>Array.prototype.join\<close>.\<close>

fun js_join :: "string \<Rightarrow> string list \<Rightarrow> string" where
  "js_join sep [] = []"
| "js_join sep [x] = x"
| "js_join sep (x # y # ys) = x @ sep @ js_join sep (y # ys)"

text \<open>\<^verbatim>\<open>String.prototype.trim\<close>: the white space and line terminators of ASCII
  (tab, line feed, vertical tab, form feed, carriage return, space) are stripped from
  both ends.\<close>

definition isWhiteSpace :: "char \<Rightarrow> bool" where
  "isWhiteSpace c \<longleftrightarrow> List.member [CHR 0x09, CHR 0x0A, CHR 0x0B, CHR 0x0C, CHR 0x0D, CHR 0x20] c"

definition js_trim :: "string \<Rightarrow> string" where
  "js_trim s = rev (dropWhile isWhiteSpace (rev (dropWhile isWhiteSpace s)))"

text \<open>\<^verbatim>\<open>String.prototype.toLowerCase\<close> on ASCII text: the letters A to Z are mapped to
  a to z, every other character is kept.\<close>

definition lowerChar :: "char \<Rightarrow> char" where
  "lowerChar c =
     (case map_of (zip ''ABCDEFGHIJKLMNOPQRSTUVWXYZ'' ''abcdefghijklmnopqrstuvwxyz'') c of
        Some l \<Rightarrow> l
      | None \<Rightarrow> c)"

definition js_toLowerCase :: "string \<Rightarrow> string" where
  "js_toLowerCase s = map lowerChar s"

text \<open>\<^verbatim>\<open>String.prototype.startsWith\<close> and \<^verbatim>\<open>String.prototype.includes\<close>.\<close>

definition js_startsWith :: "string \<Rightarrow> string \<Rightarrow> bool" where
  "js_startsWith s pre \<longleftrightarrow> take (length pre) s = pre"

fun js_includes :: "string \<Rightarrow> string \<Rightarrow> bool" where
  "js_includes [] sub = (sub = [])"
| "js_includes (x # xs) sub = (js_startsWith (x # xs) sub \<or> js_includes xs sub)"

text \<open>\<^verbatim>\<open>replaceAll("\\", "/")\<close>: every backslash becomes a slash.\<close>

definition slashes :: "string \<Rightarrow> string" where
  "slashes s = map (\<lambda>c. if c = CHR 0x5C then CHR ''/'' else c) s"

text \<open>A JavaScript \<^verbatim>\<open>Set\<close> of strings, as the list of its members in insertion order:
  \<^verbatim>\<open>add\<close> keeps the first occurrence.\<close>

definition setAdd :: "string list \<Rightarrow> string \<Rightarrow> string list" where
  "setAdd members x = (if x \<in> set members then members else members @ [x])"

definition newSet :: "string list \<Rightarrow> string list" where
  "newSet xs = foldl setAdd [] xs"

text \<open>The idiom \<^verbatim>\<open>value ?? []\<close>.\<close>

definition orEmpty :: "'a list option \<Rightarrow> 'a list" where
  "orEmpty v = (case v of None \<Rightarrow> [] | Some xs \<Rightarrow> xs)"

subsection \<open>Objects used as dictionaries\<close>

text \<open>
  A \<^verbatim>\<open>Record<string, V>\<close> is the table of its own properties in insertion order.
  \<^verbatim>\<open>Object.keys\<close> and \<^verbatim>\<open>Object.values\<close> enumerate the array-index keys (canonical decimal numerals up to \<open>2^32 - 2\<close>) in
  ascending numeric order first, then the other keys in insertion order; a document
  written by \<^verbatim>\<open>JSON.stringify\<close> and read back by \<^verbatim>\<open>JSON.parse\<close> enumerates in the same
  order again.

  The tables are ordinary objects, so a read \<^verbatim>\<open>obj[k]\<close> of a key that is not an own
  property falls back to \<^verbatim>\<open>Object.prototype\<close>: for the names below it yields an inherited
  function (or, for \<^verbatim>\<open>__proto__\<close>, the prototype itself), which is truthy, is not nullish,
  has no method \<^verbatim>\<open>includes\<close> and is not iterable; for every other key it yields
  \<^verbatim>\<open>undefined\<close>. A write \<^verbatim>\<open>obj[k] = v\<close> overwrites an own property in place or appends a
  new one, except that writing \<^verbatim>\<open>__proto__\<close> where it is not an own property goes to the
  inherited setter and creates no property. \<^verbatim>\<open>delete obj[k]\<close> removes the own property.
\<close>

type_synonym 'v obj = "(string \<times> 'v) list"

definition inheritedNames :: "string list" where
  "inheritedNames =
     [''constructor'', ''__defineGetter__'', ''__defineSetter__'', ''hasOwnProperty'',
      ''__lookupGetter__'', ''__lookupSetter__'', ''isPrototypeOf'', ''propertyIsEnumerable'',
      ''toString'', ''valueOf'', ''__proto__'', ''toLocaleString'']"

datatype 'v property = Undefined | Own 'v | Inherited

definition js_get :: "'v obj \<Rightarrow> string \<Rightarrow> 'v property" where
  "js_get ob k =
     (case map_of ob k of
        Some v \<Rightarrow> Own v
      | None \<Rightarrow> if List.member inheritedNames k then Inherited else Undefined)"

fun js_put :: "'v obj \<Rightarrow> string \<Rightarrow> 'v \<Rightarrow> 'v obj" where
  "js_put [] k v = [(k, v)]"
| "js_put ((k', v') # kvs) k v =
     (if k' = k then (k, v) # kvs else (k', v') # js_put kvs k v)"

definition js_assign :: "'v obj \<Rightarrow> string \<Rightarrow> 'v \<Rightarrow> 'v obj" where
  "js_assign ob k v = (if k = ''__proto__'' \<and> map_of ob k = None then ob else js_put ob k v)"

definition js_delete :: "'v obj \<Rightarrow> string \<Rightarrow> 'v obj" where
  "js_delete ob k = filter (\<lambda>kv. fst kv \<noteq> k) ob"

definition isDigit :: "char \<Rightarrow> bool" where
  "isDigit c \<longleftrightarrow> CHR ''0'' \<le> c \<and> c \<le> CHR ''9''"

definition decimal :: "string \<Rightarrow> nat" where
  "decimal s = foldl (\<lambda>n c. 10 * n + (of_char c - 48)) 0 s"

definition isArrayIndex :: "string \<Rightarrow> bool" where
  "isArrayIndex s \<longleftrightarrow>
     s \<noteq> [] \<and> list_all isDigit s \<and> (length s = 1 \<or> hd s \<noteq> CHR ''0'') \<and>
     decimal s < 4294967295"

definition objectEntries :: "'v obj \<Rightarrow> 'v obj" where
  "objectEntries ob =
     sort_key (\<lambda>kv. decimal (fst kv)) (filter (\<lambda>kv. isArrayIndex (fst kv)) ob) @
     filter (\<lambda>kv. \<not> isArrayIndex (fst kv)) ob"

definition objectKeys :: "'v obj \<Rightarrow> string list" where
  "objectKeys ob = map fst (objectEntries ob)"

definition objectValues :: "'v obj \<Rightarrow> 'v list" where
  "objectValues ob = map snd (objectEntries ob)"

section \<open>cache.ts: the data model\<close>

datatype kind = Function | Class | Constant | Type | Other

record ExportEntry =
  name :: string
  kind :: kind

text \<open>\<^verbatim>\<open>RepoctxFileCache\<close>, the module card. An optional property is an option; the
  property \<^verbatim>\<open>keywords\<close> is the field \<open>fc_keywords\<close>.\<close>

record RepoctxFileCache =
  path :: string
  hash :: string
  publicSurfaceHash :: "string option"
  summary :: string
  symbols :: "string list"
  exports :: "ExportEntry list option"
  fc_keywords :: "string list option"
  dependencies :: "string list option"
  footguns :: "string option"
  delta :: "string option"
  repoHeadAtSave :: "string option"
  updatedAt :: string

text \<open>An entry \<^verbatim>\<open>{ hash, ref }\<close> of \<^verbatim>\<open>RepoctxIndex.files\<close>.\<close>

record IndexEntry =
  entry_hash :: string
  entry_ref :: string

text \<open>\<^verbatim>\<open>RepoctxIndex\<close> (the constant \<^verbatim>\<open>version\<close> is left out), and the index document as
  stored, where an old document may lack the keyword index.\<close>

record RepoctxIndex =
  files :: "IndexEntry obj"
  keywordIndex :: "string list obj"

record RepoctxIndexDoc =
  doc_files :: "IndexEntry obj"
  doc_keywordIndex :: "string list obj option"

record SymbolRelation =
  symbol :: string
  relation :: string

text \<open>\<^verbatim>\<open>SymbolCard\<close>; its fields carry the prefix \<open>sc_\<close>.\<close>

record SymbolCard =
  sc_symbol :: string
  sc_kind :: kind
  sc_file :: string
  sc_signature :: "string option"
  sc_purpose :: string
  sc_related :: "SymbolRelation list option"
  sc_keywords :: "string list option"
  sc_updatedAt :: string

text \<open>\<^verbatim>\<open>SymbolsIndex\<close>: the table \<^verbatim>\<open>symbols\<close> from symbol name to record file name.\<close>

type_synonym SymbolsIndex = "string obj"

record Checkpoint =
  head :: string
  branch :: string
  at :: string

record RepoctxState =
  repoRoot :: string
  lastCheckpoint :: "Checkpoint option"

section \<open>The platform and the stored state\<close>

datatype error = ReadFailed | CommandFailed string | TypeError

text \<open>
  What the sources take from Node and from the world outside the store: the SHA-1
  digest in hexadecimal, the path functions relative to the working directory, the
  output of the three child processes (\<^verbatim>\<open>execSync\<close> throws when the command fails,
  here \<^const>\<open>Inl\<close>) and the clock.
\<close>

record env =
  sha1hex :: "string \<Rightarrow> string"
  pathResolve :: "string \<Rightarrow> string"
  pathRelative :: "string \<Rightarrow> string \<Rightarrow> string"
  pathBasename :: "string \<Rightarrow> string \<Rightarrow> string"
  pathExtname :: "string \<Rightarrow> string"
  cwd :: string
  gitRevParseHead :: "error + string"
  gitRevParseAbbrevRef :: "error + string"
  grepBasename :: "string \<Rightarrow> error + string"
  toISOString :: string

text \<open>
  A stored document either parses or makes \<^verbatim>\<open>JSON.parse\<close> throw; a file that is not there
  makes \<^verbatim>\<open>readFile\<close> throw. The state holds the files of the working tree by resolved
  path, and the documents under \<^verbatim>\<open>.repoctx\<close>: \<^verbatim>\<open>index.json\<close>, the directory \<^verbatim>\<open>files\<close>,
  \<^verbatim>\<open>symbols-index.json\<close>, the directory \<^verbatim>\<open>symbols\<close> and \<^verbatim>\<open>state.json\<close>. Writing into
  \<^verbatim>\<open>.repoctx\<close> always succeeds, and no module path names a document under \<^verbatim>\<open>.repoctx\<close>.

  The sources use the value of \<^verbatim>\<open>JSON.parse\<close> as it comes, with no check of its shape. A
  record of a module card that parses is a card or the empty object \<^verbatim>\<open>{}\<close>, the
  smallest document that parses and is no card: it is truthy and has none of the
  properties of a card. The index documents, the state document and the records of symbol
  cards that parse are values of their types.
\<close>

datatype 'a stored = Corrupt | Json 'a

datatype 'a parsed = EmptyObject | Typed 'a

record fs =
  sourceFiles :: "string \<rightharpoonup> string"
  indexFile :: "RepoctxIndexDoc stored option"
  filesDir :: "string \<rightharpoonup> RepoctxFileCache parsed stored"
  symbolsIndexFile :: "SymbolsIndex stored option"
  symbolsDir :: "string \<rightharpoonup> SymbolCard stored"
  stateFile :: "RepoctxState stored option"

text \<open>The outcome of an operation that writes: it throws or it returns a value, and
  either way it leaves a state behind.\<close>

datatype 'a result = Throws error fs | Returns 'a fs

definition stateAfter :: "'a result \<Rightarrow> fs" where
  "stateAfter r = (case r of Throws err s \<Rightarrow> s | Returns v s \<Rightarrow> s)"

text \<open>\<^verbatim>\<open>JSON.parse(await fs.readFile(...))\<close> inside \<^verbatim>\<open>try\<close>: the value, or nothing when
  either call throws.\<close>

definition readJson :: "'a stored option \<Rightarrow> 'a option" where
  "readJson doc = (case doc of Some (Json v) \<Rightarrow> Some v | _ \<Rightarrow> None)"

section \<open>cache.ts: hashing and module cards\<close>

definition fileHash :: "env \<Rightarrow> fs \<Rightarrow> string \<Rightarrow> error + string" where
  "fileHash e s file =
     (case sourceFiles s file of None \<Rightarrow> Inl ReadFailed | Some buf \<Rightarrow> Inr (sha1hex e buf))"

definition refFromPath :: "env \<Rightarrow> string \<Rightarrow> string" where
  "refFromPath e p = take 12 (sha1hex e p) @ ''.json''"

definition computePublicSurfaceHash :: "env \<Rightarrow> string list \<Rightarrow> string" where
  "computePublicSurfaceHash e syms = take 12 (sha1hex e (js_join '','' (sort syms)))"

definition loadIndex :: "fs \<Rightarrow> RepoctxIndex" where
  "loadIndex s =
     (case readJson (indexFile s) of
        Some parsed \<Rightarrow>
          \<lparr>files = doc_files parsed,
           keywordIndex = orEmpty (doc_keywordIndex parsed)\<rparr>
      | None \<Rightarrow> \<lparr>files = [], keywordIndex = []\<rparr>)"

definition saveIndex :: "fs \<Rightarrow> RepoctxIndex \<Rightarrow> fs" where
  "saveIndex s idx =
     s\<lparr>indexFile :=
         Some (Json \<lparr>doc_files = files idx, doc_keywordIndex = Some (keywordIndex idx)\<rparr>)\<rparr>"

text \<open>In \<^verbatim>\<open>loadFileCache\<close> an inherited value passes the test \<^verbatim>\<open>if (!entry)\<close>; it has no
  property \<^verbatim>\<open>ref\<close>, so \<^verbatim>\<open>path.join\<close> throws inside the \<^verbatim>\<open>try\<close> and the result is
  \<^verbatim>\<open>null\<close>. Otherwise the result is what \<^verbatim>\<open>JSON.parse\<close> returns for the record.\<close>

definition loadFileCache :: "fs \<Rightarrow> string \<Rightarrow> RepoctxFileCache parsed option" where
  "loadFileCache s relativePath =
     (case js_get (files (loadIndex s)) relativePath of
        Undefined \<Rightarrow> None
      | Own entry \<Rightarrow> readJson (filesDir s (entry_ref entry))
      | Inherited \<Rightarrow> None)"

text \<open>The two loops of \<^verbatim>\<open>saveFileCache\<close> over the keyword index. The first runs over the
  own keys \<open>kw\<close> of the index, for which \<^verbatim>\<open>idx.keywordIndex[kw]\<close> reads the own bucket: it
  removes the path from the bucket of \<open>kw\<close> and deletes a bucket left empty. The second
  runs over the keywords of the card: it creates the
  bucket of \<open>kw\<close> when \<^verbatim>\<open>idx.keywordIndex[kw]\<close> is falsy and pushes the path unless
  \<^verbatim>\<open>includes\<close> finds it; on an inherited value the call of \<^verbatim>\<open>includes\<close> throws a
  \<^verbatim>\<open>TypeError\<close>, which ends the loop and the save.\<close>

definition removeFromBucket :: "string \<Rightarrow> string list obj \<Rightarrow> string \<Rightarrow> string list obj" where
  "removeFromBucket relativePath kwIndex kw =
     (let kept = filter (\<lambda>p. p \<noteq> relativePath) (orEmpty (map_of kwIndex kw));
          kwIndex' = js_assign kwIndex kw kept
      in if length kept = 0 then js_delete kwIndex' kw else kwIndex')"

definition addToBucket ::
  "string \<Rightarrow> string list obj \<Rightarrow> string \<Rightarrow> error + string list obj" where
  "addToBucket relativePath kwIndex kw =
     (let kwIndex' = (if js_get kwIndex kw = Undefined then js_assign kwIndex kw [] else kwIndex)
      in case js_get kwIndex' kw of
           Own bucket \<Rightarrow>
             Inr (if relativePath \<in> set bucket then kwIndex'
                  else js_assign kwIndex' kw (bucket @ [relativePath]))
         | Inherited \<Rightarrow> Inl TypeError
         | Undefined \<Rightarrow> Inl TypeError)"

fun addToBuckets ::
  "string \<Rightarrow> string list obj \<Rightarrow> string list \<Rightarrow> error + string list obj" where
  "addToBuckets relativePath kwIndex [] = Inr kwIndex"
| "addToBuckets relativePath kwIndex (kw # kws) =
     (case addToBucket relativePath kwIndex kw of
        Inl err \<Rightarrow> Inl err
      | Inr kwIndex' \<Rightarrow> addToBuckets relativePath kwIndex' kws)"

text \<open>\<^verbatim>\<open>saveFileCache\<close> writes the record first and the index last: when the second loop
  throws, the record is written and the index is not.\<close>

definition saveFileCache :: "env \<Rightarrow> fs \<Rightarrow> string \<Rightarrow> RepoctxFileCache \<Rightarrow> unit result" where
  "saveFileCache e s relativePath data =
     (let idx = loadIndex s;
          ref = refFromPath e relativePath;
          s' = s\<lparr>filesDir := (filesDir s)(ref \<mapsto> Json (Typed data))\<rparr>;
          files' = js_assign (files idx) relativePath \<lparr>entry_hash = hash data, entry_ref = ref\<rparr>;
          kws = orEmpty (fc_keywords data);
          removed = foldl (removeFromBucket relativePath) (keywordIndex idx)
                      (objectKeys (keywordIndex idx))
      in case addToBuckets relativePath removed kws of
           Inl err \<Rightarrow> Throws err s'
         | Inr added \<Rightarrow> Returns () (saveIndex s' \<lparr>files = files', keywordIndex = added\<rparr>))"

text \<open>\<^verbatim>\<open>new Set(idx.keywordIndex[k] ?? [])\<close>: an inherited value is not nullish and not
  iterable, so the constructor throws a \<^verbatim>\<open>TypeError\<close>. Then the map over the keywords.\<close>

definition bucketSet :: "string list obj \<Rightarrow> string \<Rightarrow> error + string list" where
  "bucketSet kwIndex k =
     (case js_get kwIndex k of
        Undefined \<Rightarrow> Inr (newSet [])
      | Own ps \<Rightarrow> Inr (newSet ps)
      | Inherited \<Rightarrow> Inl TypeError)"

fun bucketSets :: "string list obj \<Rightarrow> string list \<Rightarrow> error + string list list" where
  "bucketSets kwIndex [] = Inr []"
| "bucketSets kwIndex (k # ks) =
     (case bucketSet kwIndex k of
        Inl err \<Rightarrow> Inl err
      | Inr st \<Rightarrow>
          (case bucketSets kwIndex ks of Inl err \<Rightarrow> Inl err | Inr sts \<Rightarrow> Inr (st # sts)))"

definition lookupByKeywords :: "fs \<Rightarrow> string list \<Rightarrow> error + string list" where
  "lookupByKeywords s kws =
     (let idx = loadIndex s
      in case bucketSets (keywordIndex idx) kws of
           Inl err \<Rightarrow> Inl err
         | Inr sets \<Rightarrow> Inr (foldl (\<lambda>union st. foldl setAdd union st) [] sets))"

section \<open>cache.ts: symbol cards and git helpers\<close>

definition loadSymbolsIndex :: "fs \<Rightarrow> SymbolsIndex" where
  "loadSymbolsIndex s = (case readJson (symbolsIndexFile s) of Some idx \<Rightarrow> idx | None \<Rightarrow> [])"

definition saveSymbolCard :: "env \<Rightarrow> fs \<Rightarrow> SymbolCard \<Rightarrow> fs" where
  "saveSymbolCard e s data =
     (let idx = loadSymbolsIndex s;
          fname = refFromPath e (''symbol:'' @ sc_symbol data)
      in s\<lparr>symbolsDir := (symbolsDir s)(fname \<mapsto> Json data),
           symbolsIndexFile := Some (Json (js_assign idx (sc_symbol data) fname))\<rparr>)"

definition loadAllSymbols :: "fs \<Rightarrow> SymbolCard list" where
  "loadAllSymbols s =
     concat (map (\<lambda>fname. case readJson (symbolsDir s fname) of Some c \<Rightarrow> [c] | None \<Rightarrow> [])
               (objectValues (loadSymbolsIndex s)))"

definition getGitHead :: "env \<Rightarrow> string option" where
  "getGitHead e = (case gitRevParseHead e of Inl _ \<Rightarrow> None | Inr out \<Rightarrow> Some (js_trim out))"

definition getGitBranch :: "env \<Rightarrow> string option" where
  "getGitBranch e = (case gitRevParseAbbrevRef e of Inl _ \<Rightarrow> None | Inr out \<Rightarrow> Some (js_trim out))"

section \<open>save.ts: saving a module card\<close>

text \<open>The truthiness tests of the sources: an optional string counts when it is present
  and not empty (\<^verbatim>\<open>if (footguns)\<close>), an optional array when it is present and has an
  element (\<^verbatim>\<open>if (related && related.length > 0)\<close>, \<^verbatim>\<open>if (related?.length)\<close>).\<close>

definition truthy :: "string option \<Rightarrow> bool" where
  "truthy v = (case v of None \<Rightarrow> False | Some t \<Rightarrow> t \<noteq> [])"

definition nonEmpty :: "'a list option \<Rightarrow> bool" where
  "nonEmpty v = (case v of None \<Rightarrow> False | Some xs \<Rightarrow> length xs > 0)"

definition findWhereUsed :: "env \<Rightarrow> string \<Rightarrow> string list" where
  "findWhereUsed e relPath =
     (case grepBasename e (pathBasename e relPath (pathExtname e relPath)) of
        Inl _ \<Rightarrow> []
      | Inr raw \<Rightarrow>
          take 5
            (filter (\<lambda>f. f \<noteq> ''./'' @ relPath \<and> f \<noteq> relPath)
              (filter (\<lambda>f. \<not> js_includes f ''node_modules'' \<and> \<not> js_includes f ''.repoctx'')
                (filter (\<lambda>f. f \<noteq> []) (js_split CHR 0x0A (js_trim raw))))))"

text \<open>The argument object of \<^verbatim>\<open>saveManual\<close>; its properties carry the prefix \<open>m_\<close>.\<close>

record SaveArgs =
  m_filePath :: string
  m_summary :: string
  m_symbols :: "string list"
  m_exports :: "ExportEntry list option"
  m_keywords :: "string list"
  m_dependencies :: "string list option"
  m_footguns :: "string option"
  m_delta :: "string option"
  m_meta :: bool

definition saveManual :: "env \<Rightarrow> fs \<Rightarrow> SaveArgs \<Rightarrow> string result" where
  "saveManual e s a =
     (let rel = (if m_meta a then slashes (m_filePath a)
                 else slashes (pathRelative e (cwd e) (pathResolve e (m_filePath a))))
      in case (if m_meta a then Inr ''meta'' else fileHash e s (pathResolve e (m_filePath a))) of
           Inl err \<Rightarrow> Throws err s
         | Inr h \<Rightarrow>
             (let publicSurface =
                    (if length (m_symbols a) > 0 then Some (computePublicSurfaceHash e (m_symbols a))
                     else None);
                  gitHead = getGitHead e;
                  whereUsed = (if m_meta a then [] else findWhereUsed e rel);
                  entry =
                    \<lparr>path = rel,
                     hash = h,
                     publicSurfaceHash = (if truthy publicSurface then publicSurface else None),
                     summary =
                       (if length whereUsed > 0
                        then m_summary a @ [CHR 0x0A] @ ''Used in: '' @ js_join '', '' whereUsed
                        else m_summary a),
                     symbols = m_symbols a,
                     exports = (if nonEmpty (m_exports a) then m_exports a else None),
                     fc_keywords = Some (m_keywords a),
                     dependencies = (if nonEmpty (m_dependencies a) then m_dependencies a else None),
                     footguns = (if truthy (m_footguns a) then m_footguns a else None),
                     delta = (if truthy (m_delta a) then m_delta a else None),
                     repoHeadAtSave = (if truthy gitHead then gitHead else None),
                     updatedAt = toISOString e\<rparr>
              in case saveFileCache e s rel entry of
                   Throws err s' \<Rightarrow> Throws err s'
                 | Returns u s' \<Rightarrow> Returns rel s'))"

section \<open>saveSymbol.ts\<close>

text \<open>The argument object of \<^verbatim>\<open>saveSymbol\<close>; its properties carry the prefix \<open>sa_\<close>.\<close>

record SymbolArgs =
  sa_symbol :: string
  sa_kind :: kind
  sa_file :: string
  sa_signature :: "string option"
  sa_purpose :: string
  sa_related :: "SymbolRelation list option"
  sa_keywords :: "string list option"

definition saveSymbol :: "env \<Rightarrow> fs \<Rightarrow> SymbolArgs \<Rightarrow> string \<times> fs" where
  "saveSymbol e s a =
     (let card =
            \<lparr>sc_symbol = sa_symbol a,
             sc_kind = sa_kind a,
             sc_file = sa_file a,
             sc_signature = (if truthy (sa_signature a) then sa_signature a else None),
             sc_purpose = sa_purpose a,
             sc_related = (if nonEmpty (sa_related a) then sa_related a else None),
             sc_keywords = (if nonEmpty (sa_keywords a) then sa_keywords a else None),
             sc_updatedAt = toISOString e\<rparr>
      in (sa_symbol a, saveSymbolCard e s card))"

text \<open>The arrow function of \<^verbatim>\<open>parseRelated\<close> that turns one non-empty segment into a
  pair: \<^verbatim>\<open>const [symbol, ...rest] = s.split(":")\<close>, then
  \<^verbatim>\<open>{ symbol: symbol.trim(), relation: rest.join(":").trim() || "related" }\<close>.\<close>

definition parsePair :: "string \<Rightarrow> SymbolRelation" where
  "parsePair seg =
     (let parts = js_split CHR '':'' seg;
          rel = js_trim (js_join '':'' (tl parts))
      in \<lparr>symbol = js_trim (hd parts),
          relation = (if rel = [] then ''related'' else rel)\<rparr>)"

definition parseRelated :: "string \<Rightarrow> SymbolRelation list" where
  "parseRelated raw =
     map parsePair (filter (\<lambda>seg. seg \<noteq> []) (map js_trim (js_split CHR '','' raw)))"

section \<open>checkpoint.ts and the checkpoint command of index.ts\<close>

definition saveCheckpoint :: "env \<Rightarrow> fs \<Rightarrow> Checkpoint result" where
  "saveCheckpoint e s =
     (case gitRevParseHead e of
        Inl err \<Rightarrow> Throws err s
      | Inr out1 \<Rightarrow>
          (case gitRevParseAbbrevRef e of
             Inl err \<Rightarrow> Throws err s
           | Inr out2 \<Rightarrow>
               (let cp = \<lparr>head = js_trim out1, branch = js_trim out2, at = toISOString e\<rparr>
                in Returns cp
                     (s\<lparr>stateFile :=
                          Some (Json \<lparr>repoRoot = cwd e, lastCheckpoint = Some cp\<rparr>)\<rparr>))))"

definition loadCheckpoint :: "fs \<Rightarrow> Checkpoint option" where
  "loadCheckpoint s =
     (case readJson (stateFile s) of None \<Rightarrow> None | Some st \<Rightarrow> lastCheckpoint st)"

text \<open>What a command leaves behind: the lines printed with \<^verbatim>\<open>console.log\<close> and
  \<^verbatim>\<open>console.error\<close>, and the exit code of the process.\<close>

record Outcome =
  stdout :: "string list"
  stderr :: "string list"
  exitCode :: nat

definition checkMark :: string where
  "checkMark = [CHR 0xE2, CHR 0x9C, CHR 0x93]"

definition errorMessage :: "error \<Rightarrow> string" where
  "errorMessage err =
     (case err of CommandFailed msg \<Rightarrow> msg | ReadFailed \<Rightarrow> ''ENOENT'' | TypeError \<Rightarrow> ''TypeError'')"

definition checkpointCommand :: "env \<Rightarrow> fs \<Rightarrow> Outcome \<times> fs" where
  "checkpointCommand e s =
     (case saveCheckpoint e s of
        Returns cp s' \<Rightarrow>
          (\<lparr>stdout = [checkMark @ '' Checkpoint saved: '' @ branch cp @ '' @ '' @
                        take 7 (head cp) @ '' ('' @ at cp @ '')''],
            stderr = [], exitCode = 0\<rparr>, s')
      | Throws err s' \<Rightarrow>
          (\<lparr>stdout = [],
            stderr = [''Error: '' @ errorMessage err,
                      ''Make sure you are inside a git repository.''],
            exitCode = 1\<rparr>, s'))"

section \<open>get.ts: queries\<close>

text \<open>The argument object of \<^verbatim>\<open>getContext\<close>; its properties carry the prefix \<open>q_\<close>.\<close>

record Query =
  q_filterPath :: "string option"
  q_keywords :: "string list option"
  q_symbol :: "string option"

definition warningSign :: string where
  "warningSign = [CHR 0xE2, CHR 0x9A, CHR 0xA0]"

definition deltaSign :: string where
  "deltaSign = [CHR 0xCE, CHR 0x94]"

definition boxRule :: "nat \<Rightarrow> string" where
  "boxRule n = concat (replicate n [CHR 0xE2, CHR 0x94, CHR 0x80])"

definition kindText :: "kind \<Rightarrow> string" where
  "kindText k =
     (case k of Function \<Rightarrow> ''function'' | Class \<Rightarrow> ''class'' | Constant \<Rightarrow> ''constant''
      | Type \<Rightarrow> ''type'' | Other \<Rightarrow> ''other'')"

definition relationText :: "SymbolRelation \<Rightarrow> string" where
  "relationText r = symbol r @ '' ('' @ relation r @ '')''"

text \<open>The symbol lookup (the branch \<^verbatim>\<open>if (symbol)\<close>): the lines pushed for the card found,
  and the whole branch.\<close>

definition symbolDetail :: "SymbolCard \<Rightarrow> string list" where
  "symbolDetail m =
     [''[symbol: '' @ sc_symbol m @ '']'',
      ''Kind: '' @ kindText (sc_kind m),
      ''File: '' @ sc_file m,
      ''Purpose: '' @ sc_purpose m] @
     (case sc_signature m of
        Some sg \<Rightarrow> if sg \<noteq> [] then [''Signature: '' @ sg] else []
      | None \<Rightarrow> []) @
     (case sc_related m of
        Some rs \<Rightarrow>
          if length rs > 0 then ''Related:'' # map (\<lambda>r. ''  - '' @ relationText r) rs else []
      | None \<Rightarrow> []) @
     (case sc_keywords m of
        Some ks \<Rightarrow> if length ks > 0 then [''Keywords: '' @ js_join '', '' ks] else []
      | None \<Rightarrow> []) @
     [''Updated: '' @ sc_updatedAt m]"

definition notFound :: "string \<Rightarrow> string" where
  "notFound wanted = ''No symbol found: '' @ [CHR 0x22] @ wanted @ [CHR 0x22]"

definition symbolLookup :: "fs \<Rightarrow> string \<Rightarrow> string" where
  "symbolLookup s wanted =
     (let allSymbols = loadAllSymbols s
      in case find (\<lambda>c. js_toLowerCase (sc_symbol c) = js_toLowerCase wanted) allSymbols of
           None \<Rightarrow> notFound wanted
         | Some m \<Rightarrow> js_join [CHR 0x0A] (symbolDetail m))"

text \<open>The listing: which paths are shown (the lookup by keywords may throw), the filter on
  each path, and the lines pushed for one path (nothing when the loop body runs into
  \<^verbatim>\<open>continue\<close>).\<close>

definition pathsToShow :: "fs \<Rightarrow> Query \<Rightarrow> error + string list" where
  "pathsToShow s q =
     (case (case q_keywords q of
              Some kws \<Rightarrow>
                if length kws > 0 then map_sum id Some (lookupByKeywords s kws) else Inr None
            | None \<Rightarrow> Inr None) of
        Inl err \<Rightarrow> Inl err
      | Inr targetPaths \<Rightarrow>
          (let idx = loadIndex s
           in Inr (case targetPaths of Some ps \<Rightarrow> ps | None \<Rightarrow> objectKeys (files idx))))"

definition relFilterOf :: "env \<Rightarrow> Query \<Rightarrow> string option" where
  "relFilterOf e q =
     (case q_filterPath q of
        None \<Rightarrow> None
      | Some f \<Rightarrow>
          if f \<noteq> [] then Some (slashes (pathRelative e (cwd e) (pathResolve e f))) else None)"

definition passesFilter :: "string option \<Rightarrow> string \<Rightarrow> bool" where
  "passesFilter relFilter rel =
     (case relFilter of
        None \<Rightarrow> True
      | Some rf \<Rightarrow>
          if rf \<noteq> [] then
            (let isCwd = (rf = [] \<or> rf = ''.'');
                 isExact = (rel = rf);
                 isUnder = js_startsWith rel (rf @ ''/'')
             in \<not> (\<not> isCwd \<and> \<not> isExact \<and> \<not> isUnder))
          else True)"

definition stalenessLines :: "env \<Rightarrow> fs \<Rightarrow> string \<Rightarrow> RepoctxFileCache \<Rightarrow> string list" where
  "stalenessLines e s rel cache =
     (if hash cache \<noteq> ''meta'' then
        (case fileHash e s (pathResolve e rel) of
           Inr currentHash \<Rightarrow>
             if currentHash \<noteq> hash cache
             then [warningSign @ '' Context outdated (file changed since last save)'']
             else []
         | Inl _ \<Rightarrow> [warningSign @ '' File not found (may have been deleted or moved)''])
      else [])"

definition cardLines :: "env \<Rightarrow> fs \<Rightarrow> string \<Rightarrow> RepoctxFileCache \<Rightarrow> string list" where
  "cardLines e s rel cache =
     [''['' @ rel @ '']'', summary cache] @
     (if length (symbols cache) > 0 then [''Symbols: '' @ js_join '', '' (symbols cache)] else []) @
     (case exports cache of
        Some xs \<Rightarrow>
          if length xs > 0
          then [''Exports: '' @
                js_join '', '' (map (\<lambda>x. name x @ ''('' @ kindText (kind x) @ '')'') xs)]
          else []
      | None \<Rightarrow> []) @
     (case fc_keywords cache of
        Some ks \<Rightarrow> if length ks > 0 then [''Keywords: '' @ js_join '', '' ks] else []
      | None \<Rightarrow> []) @
     (case dependencies cache of
        Some ds \<Rightarrow> if length ds > 0 then [''Deps: '' @ js_join '', '' ds] else []
      | None \<Rightarrow> []) @
     (case footguns cache of
        Some t \<Rightarrow> if t \<noteq> [] then [warningSign @ '' Footguns: '' @ t] else []
      | None \<Rightarrow> []) @
     (case delta cache of
        Some t \<Rightarrow> if t \<noteq> [] then [deltaSign @ '' Last change: '' @ t] else []
      | None \<Rightarrow> []) @
     stalenessLines e s rel cache @
     [[]]"

text \<open>The body of the loop over the paths. A path that does not pass the filter, and a
  path whose record loads as \<^verbatim>\<open>null\<close>, add nothing. For the empty object the test
  \<^verbatim>\<open>if (!cache)\<close> fails, two lines are pushed, and \<^verbatim>\<open>cache.symbols.length\<close> reads a
  property of \<^verbatim>\<open>undefined\<close>: a \<^verbatim>\<open>TypeError\<close>, outside any \<^verbatim>\<open>try\<close>, which ends the loop and
  the query.\<close>

definition moduleBlock :: "env \<Rightarrow> fs \<Rightarrow> string option \<Rightarrow> string \<Rightarrow> error + string list" where
  "moduleBlock e s relFilter rel =
     (if \<not> passesFilter relFilter rel then Inr []
      else case loadFileCache s rel of
             None \<Rightarrow> Inr []
           | Some EmptyObject \<Rightarrow> Inl TypeError
           | Some (Typed cache) \<Rightarrow> Inr (cardLines e s rel cache))"

fun moduleBlocks :: "env \<Rightarrow> fs \<Rightarrow> string option \<Rightarrow> string list \<Rightarrow> error + string list" where
  "moduleBlocks e s relFilter [] = Inr []"
| "moduleBlocks e s relFilter (rel # rels) =
     (case moduleBlock e s relFilter rel of
        Inl err \<Rightarrow> Inl err
      | Inr ls \<Rightarrow>
          (case moduleBlocks e s relFilter rels of
             Inl err \<Rightarrow> Inl err
           | Inr rest \<Rightarrow> Inr (ls @ rest)))"

definition symbolsToShow :: "fs \<Rightarrow> Query \<Rightarrow> SymbolCard list" where
  "symbolsToShow s q =
     (let allSymbols = loadAllSymbols s
      in case q_keywords q of
           Some kws \<Rightarrow>
             if length kws > 0
             then filter (\<lambda>c. list_ex (\<lambda>k. case sc_keywords c of None \<Rightarrow> False
                                             | Some ks \<Rightarrow> k \<in> set ks) kws) allSymbols
             else allSymbols
         | None \<Rightarrow> allSymbols)"

definition symbolBlock :: "SymbolCard \<Rightarrow> string list" where
  "symbolBlock c =
     [''[symbol: '' @ sc_symbol c @ ''] ('' @ kindText (sc_kind c) @ '') '' @ sc_file c,
      ''  '' @ sc_purpose c] @
     (case sc_signature c of
        Some sg \<Rightarrow> if sg \<noteq> [] then [''  Sig: '' @ sg] else []
      | None \<Rightarrow> []) @
     (case sc_related c of
        Some rs \<Rightarrow>
          if length rs > 0 then [''  Related: '' @ js_join '', '' (map relationText rs)] else []
      | None \<Rightarrow> []) @
     [[]]"

definition symbolSection :: "SymbolCard list \<Rightarrow> string list" where
  "symbolSection cs =
     (if length cs > 0
      then (boxRule 2 @ '' Symbols '' @ boxRule 46) # concat (map symbolBlock cs)
      else [])"

text \<open>Everything after the symbol lookup: the module cards, then the symbol cards.\<close>

definition listing :: "env \<Rightarrow> fs \<Rightarrow> Query \<Rightarrow> error + string" where
  "listing e s q =
     (case pathsToShow s q of
        Inl err \<Rightarrow> Inl err
      | Inr paths \<Rightarrow>
          (case moduleBlocks e s (relFilterOf e q) paths of
             Inl err \<Rightarrow> Inl err
           | Inr ls \<Rightarrow> Inr (js_join [CHR 0x0A] (ls @ symbolSection (symbolsToShow s q)))))"

definition getContext :: "env \<Rightarrow> fs \<Rightarrow> Query \<Rightarrow> error + string" where
  "getContext e s q =
     (case q_symbol q of
        Some wanted \<Rightarrow> if wanted \<noteq> [] then Inr (symbolLookup s wanted) else listing e s q
      | None \<Rightarrow> listing e s q)"

section \<open>get.ts: the stale check\<close>

record StaleEntry =
  stale_path :: string
  reason :: string

text \<open>The body of the loop of \<^verbatim>\<open>getStale\<close>: what one indexed path adds to the result. For
  the empty object \<^verbatim>\<open>cache.hash\<close> is \<^verbatim>\<open>undefined\<close>, which is not the sentinel and differs
  from every hash.\<close>

definition staleEntries :: "env \<Rightarrow> fs \<Rightarrow> string \<Rightarrow> StaleEntry list" where
  "staleEntries e s rel =
     (case loadFileCache s rel of
        None \<Rightarrow> []
      | Some EmptyObject \<Rightarrow>
          (case fileHash e s (pathResolve e rel) of
             Inr currentHash \<Rightarrow> [\<lparr>stale_path = rel, reason = ''file content changed''\<rparr>]
           | Inl _ \<Rightarrow> [\<lparr>stale_path = rel, reason = ''file not found''\<rparr>])
      | Some (Typed cache) \<Rightarrow>
          if hash cache = ''meta'' then []
          else (case fileHash e s (pathResolve e rel) of
                  Inr currentHash \<Rightarrow>
                    if currentHash \<noteq> hash cache
                    then [\<lparr>stale_path = rel, reason = ''file content changed''\<rparr>]
                    else []
                | Inl _ \<Rightarrow> [\<lparr>stale_path = rel, reason = ''file not found''\<rparr>]))"

definition getStale :: "env \<Rightarrow> fs \<Rightarrow> StaleEntry list" where
  "getStale e s = concat (map (staleEntries e s) (objectKeys (files (loadIndex s))))"

section \<open>The staleness oracle as the specification words it\<close>

datatype staleness = Fresh | Stale | Missing

text \<open>The classification of the card listed under the path \<open>rel\<close>, in the words of the
  specification: the sentinel hash is always fresh; otherwise the file is read again
  and hashed again, an equal hash is fresh, an unequal hash is stale, a failed read is
  missing.\<close>

definition classify :: "env \<Rightarrow> fs \<Rightarrow> string \<Rightarrow> RepoctxFileCache \<Rightarrow> staleness" where
  "classify e s rel cache =
     (if hash cache = ''meta'' then Fresh
      else case sourceFiles s (pathResolve e rel) of
             None \<Rightarrow> Missing
           | Some bytes \<Rightarrow> if sha1hex e bytes = hash cache then Fresh else Stale)"

section \<open>Auxiliary notions and example data\<close>



text \<open>The bucket of a keyword in the stored keyword index.\<close>

definition bucketOf :: "fs \<Rightarrow> string \<Rightarrow> string list" where
  "bucketOf s k = orEmpty (map_of (keywordIndex (loadIndex s)) k)"

text \<open>A platform for the examples: a working directory \<^verbatim>\<open>/repo\<close> inside a git repository,
  paths resolved against it, and a stand-in for the digest (the examples do not depend
  on the digest chosen). The search for the basename reports one other file.\<close>

definition exampleEnv :: env where
  "exampleEnv =
     \<lparr>sha1hex = (\<lambda>t. t),
      pathResolve = (\<lambda>p. ''/repo/'' @ p),
      pathRelative = (\<lambda>from to. drop (length from + 1) to),
      pathBasename = (\<lambda>p ext. p),
      pathExtname = (\<lambda>p. []),
      cwd = ''/repo'',
      gitRevParseHead = Inr (''0123456789abcdef'' @ [CHR 0x0A]),
      gitRevParseAbbrevRef = Inr (''main'' @ [CHR 0x0A]),
      grepBasename = (\<lambda>b. Inr (''./src/b.ts'' @ [CHR 0x0A])),
      toISOString = ''2024-01-01T00:00:00.000Z''\<rparr>"








definition emptyStore :: fs where
  "emptyStore =
     \<lparr>sourceFiles = Map.empty, indexFile = None, filesDir = Map.empty,
      symbolsIndexFile = None, symbolsDir = Map.empty, stateFile = None\<rparr>"

text \<open>The card that \<^verbatim>\<open>saveManual\<close> passes to \<^verbatim>\<open>saveFileCache\<close> for the arguments \<open>a\<close>, the
  canonical path \<open>rel\<close> and the hash \<open>h\<close>.\<close>

definition savedEntry :: "env \<Rightarrow> SaveArgs \<Rightarrow> string \<Rightarrow> string \<Rightarrow> RepoctxFileCache" where
  "savedEntry e a rel h =
     \<lparr>path = rel,
      hash = h,
      publicSurfaceHash =
        (if m_symbols a \<noteq> [] \<and> computePublicSurfaceHash e (m_symbols a) \<noteq> []
         then Some (computePublicSurfaceHash e (m_symbols a)) else None),
      summary =
        (if \<not> m_meta a \<and> findWhereUsed e rel \<noteq> []
         then m_summary a @ [CHR 0x0A] @ ''Used in: '' @ js_join '', '' (findWhereUsed e rel)
         else m_summary a),
      symbols = m_symbols a,
      exports = (if nonEmpty (m_exports a) then m_exports a else None),
      fc_keywords = Some (m_keywords a),
      dependencies = (if nonEmpty (m_dependencies a) then m_dependencies a else None),
      footguns = (if truthy (m_footguns a) then m_footguns a else None),
      delta = (if truthy (m_delta a) then m_delta a else None),
      repoHeadAtSave = (if truthy (getGitHead e) then getGitHead e else None),
      updatedAt = toISOString e\<rparr>"

text \<open>A working tree with one source file; a save of that file, tagged \<open>dal\<close>; a second
  save of it, tagged \<open>auth\<close> instead; a save of a virtual entry; and the states after
  the first and after the second save.\<close>

definition exampleTree :: fs where
  "exampleTree =
     emptyStore\<lparr>sourceFiles := [''/repo/src/a.ts'' \<mapsto> ''export const getUser = 1'']\<rparr>"

definition exampleSave :: SaveArgs where
  "exampleSave =
     \<lparr>m_filePath = ''src/a.ts'', m_summary = ''Users DAL'', m_symbols = [''getUser''],
      m_exports = None, m_keywords = [''dal''], m_dependencies = Some [], m_footguns = None,
      m_delta = None, m_meta = False\<rparr>"

definition exampleResave :: SaveArgs where
  "exampleResave = exampleSave\<lparr>m_keywords := [''auth'']\<rparr>"

definition exampleMetaSave :: SaveArgs where
  "exampleMetaSave =
     \<lparr>m_filePath = ''.meta/glossary'', m_summary = ''user = registered account'',
      m_symbols = [], m_exports = None, m_keywords = [''glossary''], m_dependencies = None,
      m_footguns = None, m_delta = None, m_meta = True\<rparr>"

definition exampleSaved :: fs where
  "exampleSaved = stateAfter (saveManual exampleEnv exampleTree exampleSave)"

definition exampleResaved :: fs where
  "exampleResaved = stateAfter (saveManual exampleEnv exampleSaved exampleResave)"

text \<open>The card stored by the example save, and the stored state after the source file
  was edited, after it was deleted, and after the record of the card was damaged.\<close>

definition exampleStored :: RepoctxFileCache where
  "exampleStored = savedEntry exampleEnv exampleSave ''src/a.ts'' ''export const getUser = 1''"

definition exampleEdited :: fs where
  "exampleEdited = exampleSaved\<lparr>sourceFiles := [''/repo/src/a.ts'' \<mapsto> ''export const getUser = 2'']\<rparr>"

definition exampleDeleted :: fs where
  "exampleDeleted = exampleSaved\<lparr>sourceFiles := Map.empty\<rparr>"

definition exampleDamaged :: fs where
  "exampleDamaged = exampleSaved\<lparr>filesDir := [''src/a.ts.json'' \<mapsto> Corrupt]\<rparr>"

text \<open>The stored state after the record of the card was replaced by the document \<^verbatim>\<open>{}\<close>; a
  third save of the example file, tagged \<open>constructor\<close>; a query with no argument.\<close>

definition exampleEmptied :: fs where
  "exampleEmptied = exampleSaved\<lparr>filesDir := [''src/a.ts.json'' \<mapsto> Json EmptyObject]\<rparr>"

definition exampleThrowingResave :: SaveArgs where
  "exampleThrowingResave = exampleSave\<lparr>m_keywords := [''constructor'']\<rparr>"

definition queryAll :: Query where
  "queryAll = \<lparr>q_filterPath = None, q_keywords = None, q_symbol = None\<rparr>"


definition keywordQuery :: "string list \<Rightarrow> Query" where
  "keywordQuery kws = \<lparr>q_filterPath = None, q_keywords = Some kws, q_symbol = None\<rparr>"


definition exampleSymbolArgs :: SymbolArgs where
  "exampleSymbolArgs =
     \<lparr>sa_symbol = ''FooBar'', sa_kind = Function, sa_file = ''src/a.ts'', sa_signature = None,
      sa_purpose = ''Checks a session'', sa_related = None, sa_keywords = Some [''auth'']\<rparr>"

definition exampleSymbols :: fs where
  "exampleSymbols = snd (saveSymbol exampleEnv exampleSaved exampleSymbolArgs)"

definition exampleNoGit :: env where
  "exampleNoGit =
     exampleEnv\<lparr>gitRevParseHead := Inl (CommandFailed ''fatal: not a git repository''),
                gitRevParseAbbrevRef := Inl (CommandFailed ''fatal: not a git repository'')\<rparr>"

definition exampleSavedNoGit :: fs where
  "exampleSavedNoGit = stateAfter (saveManual exampleNoGit exampleTree exampleSave)"

section \<open>Properties of the built-ins\<close>

lemma js_split_not_Nil: "js_split c s \<noteq> []"
  by (induction s) (auto split: list.splits)

lemma js_split_no_sep: "c \<notin> set s \<Longrightarrow> js_split c s = [s]"
  by (induction s) auto

lemma js_split_first: "c \<notin> set s \<Longrightarrow> js_split c (s @ c # t) = s # js_split c t"
  by (induction s) auto

lemma js_join_split: "js_join [c] (js_split c s) = s"
proof (induction s)
  case Nil
  show ?case by simp
next
  case (Cons x xs)
  obtain p ps where ps: "js_split c xs = p # ps"
    using js_split_not_Nil [of c xs] by (cases "js_split c xs") auto
  show ?case
  proof (cases "x = c")
    case True
    with Cons ps show ?thesis by simp
  next
    case False
    with Cons ps show ?thesis by (cases ps) auto
  qed
qed

lemma map_of_js_put: "map_of (js_put ob k v) = (map_of ob)(k \<mapsto> v)"
  by (induction ob) (auto simp: fun_eq_iff)

lemma map_of_js_assign:
  "map_of (js_assign ob k v) =
     (if k = ''__proto__'' \<and> map_of ob k = None then map_of ob else (map_of ob)(k \<mapsto> v))"
  by (auto simp: js_assign_def map_of_js_put)

lemma map_of_js_delete: "map_of (js_delete ob k) = (map_of ob)(k := None)"
  by (induction ob) (auto simp: js_delete_def fun_eq_iff)

lemma proto_inherited: "''__proto__'' \<in> set inheritedNames"
  by (simp add: inheritedNames_def)

lemma set_objectEntries: "set (objectEntries ob) = set ob"
  by (auto simp: objectEntries_def)

lemma set_objectKeys: "set (objectKeys ob) = fst ` set ob"
  by (simp add: objectKeys_def set_objectEntries)


lemma set_foldl_setAdd: "set (foldl setAdd acc xs) = set acc \<union> set xs"
  by (induction xs arbitrary: acc) (auto simp: setAdd_def)

lemma distinct_foldl_setAdd: "distinct acc \<Longrightarrow> distinct (foldl setAdd acc xs)"
  by (induction xs arbitrary: acc) (auto simp: setAdd_def)

lemma orEmpty_absent: "k \<notin> fst ` set m \<Longrightarrow> orEmpty (map_of m k) = []"
  by (simp add: orEmpty_def map_of_eq_None_iff [THEN iffD2])

section \<open>The keyword index\<close>

lemma map_of_removeFromBucket:
  "map_of (removeFromBucket p m kw) =
     (map_of m)(kw := (let kept = filter (\<lambda>x. x \<noteq> p) (orEmpty (map_of m kw))
                       in if kept = [] then None else Some kept))"
  by (auto simp: removeFromBucket_def Let_def map_of_js_assign map_of_js_delete orEmpty_def)

lemma orEmpty_removeFromBucket:
  "orEmpty (map_of (removeFromBucket p m kw) k) =
     (if k = kw then filter (\<lambda>x. x \<noteq> p) (orEmpty (map_of m k)) else orEmpty (map_of m k))"
  by (simp add: map_of_removeFromBucket Let_def orEmpty_def)

lemma orEmpty_remove_loop:
  "orEmpty (map_of (foldl (removeFromBucket p) m ks) k) =
     (if k \<in> set ks then filter (\<lambda>x. x \<noteq> p) (orEmpty (map_of m k)) else orEmpty (map_of m k))"
  by (induction ks arbitrary: m) (auto simp: orEmpty_removeFromBucket)

lemma orEmpty_remove_all:
  "orEmpty (map_of (foldl (removeFromBucket p) m (objectKeys m)) k) =
     filter (\<lambda>x. x \<noteq> p) (orEmpty (map_of m k))"
  by (simp add: orEmpty_remove_loop set_objectKeys orEmpty_absent)

lemma addToBucket_Inl:
  "addToBucket p m kw = Inl err \<longleftrightarrow>
     err = TypeError \<and> map_of m kw = None \<and> kw \<in> set inheritedNames"
  using proto_inherited
  by (auto simp: addToBucket_def Let_def js_get_def map_of_js_assign split: option.splits)

lemma addToBucket_Inr:
  "addToBucket p m kw = Inr m' \<Longrightarrow>
   map_of m' = (map_of m)(kw \<mapsto> (let b = orEmpty (map_of m kw) in if p \<in> set b then b else b @ [p]))"
  using proto_inherited
  by (auto simp: addToBucket_def Let_def js_get_def map_of_js_assign orEmpty_def fun_eq_iff
      split: option.splits if_splits)

lemma orEmpty_addToBucket:
  "addToBucket p m kw = Inr m' \<Longrightarrow>
   orEmpty (map_of m' k) =
     (if k = kw \<and> p \<notin> set (orEmpty (map_of m k)) then orEmpty (map_of m k) @ [p]
      else orEmpty (map_of m k))"
  by (drule addToBucket_Inr) (auto simp: Let_def orEmpty_def)

lemma orEmpty_add_loop:
  "addToBuckets p m ks = Inr m' \<Longrightarrow>
   orEmpty (map_of m' k) =
     (if k \<in> set ks \<and> p \<notin> set (orEmpty (map_of m k)) then orEmpty (map_of m k) @ [p]
      else orEmpty (map_of m k))"
proof (induction ks arbitrary: m)
  case Nil
  then show ?case by simp
next
  case (Cons kw ks)
  then obtain m1 where a: "addToBucket p m kw = Inr m1" and r: "addToBuckets p m1 ks = Inr m'"
    by (auto split: sum.splits)
  show ?case
    using Cons.IH [OF r] orEmpty_addToBucket [OF a, of k] by auto
qed

lemma addToBuckets_Inl:
  "(\<exists>err. addToBuckets p m ks = Inl err) \<longleftrightarrow>
     (\<exists>kw \<in> set ks. map_of m kw = None \<and> kw \<in> set inheritedNames)"
proof (induction ks arbitrary: m)
  case Nil
  show ?case by simp
next
  case (Cons kw ks)
  show ?case
  proof (cases "addToBucket p m kw")
    case (Inl err)
    then have "map_of m kw = None \<and> kw \<in> set inheritedNames"
      by (simp add: addToBucket_Inl)
    with Inl show ?thesis
      by auto
  next
    case (Inr m1)
    have n: "\<not> (map_of m kw = None \<and> kw \<in> set inheritedNames)"
      using Inr addToBucket_Inl [of p m kw TypeError] by auto
    have "map_of m1 k = None \<and> k \<in> set inheritedNames \<longleftrightarrow>
          map_of m k = None \<and> k \<in> set inheritedNames" for k
      using addToBucket_Inr [OF Inr] n by (auto simp: Let_def)
    with Cons.IH [of m1] Inr n show ?thesis
      by auto
  qed
qed

lemma addToBuckets_error: "addToBuckets p m ks = Inl err \<Longrightarrow> err = TypeError"
  by (induction ks arbitrary: m) (auto simp: addToBucket_Inl split: sum.splits)

lemma set_union_loop:
  "set (foldl (\<lambda>union st. foldl setAdd union st) acc sets) =
     set acc \<union> (\<Union>st \<in> set sets. set st)"
  by (induction sets arbitrary: acc) (auto simp: set_foldl_setAdd)

lemma distinct_union_loop:
  "distinct acc \<Longrightarrow> distinct (foldl (\<lambda>union st. foldl setAdd union st) acc sets)"
  by (induction sets arbitrary: acc) (auto simp: distinct_foldl_setAdd)

lemma bucketSet_Inr: "bucketSet m k = Inr st \<Longrightarrow> set st = set (orEmpty (map_of m k))"
  by (auto simp: bucketSet_def js_get_def orEmpty_def newSet_def set_foldl_setAdd
      split: option.splits if_splits)

lemma bucketSet_Inl:
  "bucketSet m k = Inl err \<longleftrightarrow> err = TypeError \<and> map_of m k = None \<and> k \<in> set inheritedNames"
  by (auto simp: bucketSet_def js_get_def split: option.splits)

lemma bucketSets_Inr:
  "bucketSets m ks = Inr sts \<Longrightarrow>
   (\<Union>st \<in> set sts. set st) = (\<Union>k \<in> set ks. set (orEmpty (map_of m k)))"
proof (induction ks arbitrary: sts)
  case Nil
  then show ?case by simp
next
  case (Cons k ks)
  then obtain st rest where a: "bucketSet m k = Inr st" and r: "bucketSets m ks = Inr rest"
    and sts: "sts = st # rest"
    by (auto split: sum.splits)
  show ?case
    using Cons.IH [OF r] bucketSet_Inr [OF a] by (simp add: sts)
qed

lemma bucketSets_Inl:
  "(\<exists>err. bucketSets m ks = Inl err) \<longleftrightarrow>
     (\<exists>k \<in> set ks. map_of m k = None \<and> k \<in> set inheritedNames)"
proof (induction ks)
  case Nil
  show ?case by simp
next
  case (Cons k ks)
  show ?case
  proof (cases "bucketSet m k")
    case (Inl err)
    then have "map_of m k = None \<and> k \<in> set inheritedNames"
      by (simp add: bucketSet_Inl)
    with Inl show ?thesis
      by auto
  next
    case (Inr st)
    have "\<not> (map_of m k = None \<and> k \<in> set inheritedNames)"
      using Inr bucketSet_Inl [of m k TypeError] by auto
    with Cons.IH Inr show ?thesis
      by (auto split: sum.splits)
  qed
qed

lemma bucketSets_error: "bucketSets m ks = Inl err \<Longrightarrow> err = TypeError"
  by (induction ks) (auto simp: bucketSet_Inl split: sum.splits)

lemma set_lookupByKeywords:
  "lookupByKeywords s kws = Inr ps \<Longrightarrow> set ps = (\<Union>k \<in> set kws. set (bucketOf s k))"
  by (auto simp: lookupByKeywords_def Let_def set_union_loop bucketOf_def
      split: sum.splits dest!: bucketSets_Inr)

lemma distinct_lookupByKeywords: "lookupByKeywords s kws = Inr ps \<Longrightarrow> distinct ps"
  by (auto simp: lookupByKeywords_def Let_def distinct_union_loop split: sum.splits)

lemma lookupByKeywords_Inl:
  "(\<exists>err. lookupByKeywords s kws = Inl err) \<longleftrightarrow>
     (\<exists>k \<in> set kws. map_of (keywordIndex (loadIndex s)) k = None \<and> k \<in> set inheritedNames)"
  using bucketSets_Inl [of "keywordIndex (loadIndex s)" kws]
  by (auto simp: lookupByKeywords_def Let_def split: sum.splits)

lemma lookupByKeywords_error: "lookupByKeywords s kws = Inl err \<Longrightarrow> err = TypeError"
  by (auto simp: lookupByKeywords_def Let_def split: sum.splits dest: bucketSets_error)

lemma loadIndex_saveIndex: "loadIndex (saveIndex s idx) = idx"
  by (simp add: loadIndex_def saveIndex_def readJson_def orEmpty_def)

lemma map_of_remove_loop:
  "map_of (foldl (removeFromBucket p) m ks) k =
     (if k \<in> set ks
      then (let kept = filter (\<lambda>x. x \<noteq> p) (orEmpty (map_of m k))
            in if kept = [] then None else Some kept)
      else map_of m k)"
  by (induction ks arbitrary: m) (auto simp: map_of_removeFromBucket Let_def orEmpty_def)

lemma map_of_remove_all:
  "map_of (foldl (removeFromBucket p) m (objectKeys m)) k = None \<longleftrightarrow>
     filter (\<lambda>x. x \<noteq> p) (orEmpty (map_of m k)) = []"
  by (auto simp: map_of_remove_loop Let_def set_objectKeys orEmpty_def
      map_of_eq_None_iff [symmetric] split: option.splits)

section \<open>Saving a module card\<close>

lemma saveFileCache_cases:
  "saveFileCache e s p d =
     (case addToBuckets p
             (foldl (removeFromBucket p) (keywordIndex (loadIndex s))
                (objectKeys (keywordIndex (loadIndex s))))
             (orEmpty (fc_keywords d)) of
        Inl err \<Rightarrow> Throws err (s\<lparr>filesDir := (filesDir s)(refFromPath e p \<mapsto> Json (Typed d))\<rparr>)
      | Inr added \<Rightarrow>
          Returns ()
            (saveIndex (s\<lparr>filesDir := (filesDir s)(refFromPath e p \<mapsto> Json (Typed d))\<rparr>)
               \<lparr>files = js_assign (files (loadIndex s)) p
                          \<lparr>entry_hash = hash d, entry_ref = refFromPath e p\<rparr>,
                keywordIndex = added\<rparr>))"
  by (simp add: saveFileCache_def Let_def)

lemma saveFileCache_Throws_iff:
  "(\<exists>err s'. saveFileCache e s p d = Throws err s') \<longleftrightarrow>
     (\<exists>kw \<in> set (orEmpty (fc_keywords d)).
        kw \<in> set inheritedNames \<and> filter (\<lambda>x. x \<noteq> p) (bucketOf s kw) = [])"
proof -
  let ?removed = "foldl (removeFromBucket p) (keywordIndex (loadIndex s))
                    (objectKeys (keywordIndex (loadIndex s)))"
  have "(\<exists>err s'. saveFileCache e s p d = Throws err s') \<longleftrightarrow>
        (\<exists>err. addToBuckets p ?removed (orEmpty (fc_keywords d)) = Inl err)"
    by (simp add: saveFileCache_cases split: sum.splits)
  then show ?thesis
    by (auto simp: addToBuckets_Inl map_of_remove_all bucketOf_def)
qed

lemma saveFileCache_Throws: "saveFileCache e s p d = Throws err s' \<Longrightarrow> err = TypeError"
  by (auto simp: saveFileCache_cases split: sum.splits dest: addToBuckets_error)

lemma stateAfter_simps:
  "stateAfter (Throws err s) = s"
  "stateAfter (Returns v s) = s"
  by (simp_all add: stateAfter_def)

lemma sourceFiles_saveFileCache: "sourceFiles (stateAfter (saveFileCache e s p d)) = sourceFiles s"
  by (simp add: saveFileCache_cases saveIndex_def stateAfter_simps split: sum.splits)

lemma filesDir_saveFileCache:
  "filesDir (stateAfter (saveFileCache e s p d)) = (filesDir s)(refFromPath e p \<mapsto> Json (Typed d))"
  by (simp add: saveFileCache_cases saveIndex_def stateAfter_simps split: sum.splits)

lemma files_saveFileCache:
  "saveFileCache e s p d = Returns u s' \<Longrightarrow>
   files (loadIndex s') =
     js_assign (files (loadIndex s)) p \<lparr>entry_hash = hash d, entry_ref = refFromPath e p\<rparr>"
  by (auto simp: saveFileCache_cases loadIndex_saveIndex split: sum.splits)

lemma bucketOf_saveFileCache:
  "saveFileCache e s p d = Returns u s' \<Longrightarrow>
   bucketOf s' k =
     (let old = filter (\<lambda>x. x \<noteq> p) (bucketOf s k)
      in if k \<in> set (orEmpty (fc_keywords d)) then old @ [p] else old)"
  by (auto simp: saveFileCache_cases loadIndex_saveIndex bucketOf_def Let_def orEmpty_remove_all
      split: sum.splits dest!: orEmpty_add_loop [where k = k])

lemma member_after_save:
  "saveFileCache e s p d = Returns u s' \<Longrightarrow>
   p \<in> set (bucketOf s' k) \<longleftrightarrow> k \<in> set (orEmpty (fc_keywords d))"
  by (simp add: bucketOf_saveFileCache Let_def)

lemma loadFileCache_saveFileCache:
  "saveFileCache e s p d = Returns u s' \<Longrightarrow> p \<noteq> ''__proto__'' \<Longrightarrow>
   loadFileCache s' p = Some (Typed d)"
  using filesDir_saveFileCache [of e s p d]
  by (simp add: loadFileCache_def js_get_def files_saveFileCache map_of_js_assign readJson_def
      stateAfter_simps)

section \<open>Related-symbol pairs\<close>

lemma parsePair_no_colon:
  "CHR '':'' \<notin> set seg \<Longrightarrow> parsePair seg = \<lparr>symbol = js_trim seg, relation = ''related''\<rparr>"
  by (simp add: parsePair_def js_split_no_sep js_trim_def)

lemma parsePair_colon:
  "CHR '':'' \<notin> set nm \<Longrightarrow> parsePair (nm @ CHR '':'' # lbl) =
     \<lparr>symbol = js_trim nm, relation = (if js_trim lbl = [] then ''related'' else js_trim lbl)\<rparr>"
  using js_join_split [of "CHR '':''" lbl] by (simp add: parsePair_def js_split_first)

text \<open>
  Claim C9. \<^verbatim>\<open>parseRelated("a:x,b")\<close> is the two entries \<open>{symbol: a, relation: x}\<close> and
  \<open>{symbol: b, relation: related}\<close>. In general the result has one entry per
  comma-separated segment that is not blank; a segment with no colon gets the label
  \<open>related\<close>, and so does a segment whose label after the first colon is blank; no
  entry has an empty label.
\<close>

theorem parseRelated_default_label:
  "parseRelated ''a:x,b'' =
     [\<lparr>symbol = ''a'', relation = ''x''\<rparr>, \<lparr>symbol = ''b'', relation = ''related''\<rparr>] \<and>
   parseRelated raw =
     map parsePair (filter (\<lambda>seg. seg \<noteq> []) (map js_trim (js_split CHR '','' raw))) \<and>
   (CHR '':'' \<notin> set seg \<longrightarrow>
      parsePair seg = \<lparr>symbol = js_trim seg, relation = ''related''\<rparr>) \<and>
   (CHR '':'' \<notin> set nm \<and> js_trim lbl = [] \<longrightarrow>
      parsePair (nm @ '':'' @ lbl) = \<lparr>symbol = js_trim nm, relation = ''related''\<rparr>) \<and>
   (\<forall>r \<in> set (parseRelated raw). relation r \<noteq> [])"
proof -
  have "parseRelated ''a:x,b'' =
     [\<lparr>symbol = ''a'', relation = ''x''\<rparr>, \<lparr>symbol = ''b'', relation = ''related''\<rparr>]"
    by (simp add: parseRelated_def parsePair_def js_trim_def isWhiteSpace_def)
  moreover have "\<forall>r \<in> set (parseRelated raw). relation r \<noteq> []"
    by (auto simp: parseRelated_def parsePair_def Let_def)
  ultimately show ?thesis
    by (simp add: parsePair_no_colon parsePair_colon) (simp add: parseRelated_def)
qed

theorem parseRelated_default_label_witness:
  "CHR '':'' \<notin> set ''b'' \<and> js_trim '' '' = [] \<and>
   parsePair ''b'' = \<lparr>symbol = ''b'', relation = ''related''\<rparr> \<and>
   parsePair ''b: '' = \<lparr>symbol = ''b'', relation = ''related''\<rparr> \<and>
   map relation (parseRelated ''a:x,b: '') = [''x'', ''related'']"
proof -
  have t: "js_trim '' '' = []" "js_trim ''b'' = ''b''"
    by (simp_all add: js_trim_def isWhiteSpace_def)
  have "map relation (parseRelated ''a:x,b: '') = [''x'', ''related'']"
    by (simp add: parseRelated_def parsePair_def js_trim_def isWhiteSpace_def)
  then show ?thesis
    using t parseRelated_default_label [of "''a:x,b: ''" "''b''" "''b''" "'' ''"] by simp
qed


section \<open>Saving and loading a module card\<close>

lemma saveManual_meta:
  "m_meta a \<Longrightarrow> saveManual e s a =
     (case saveFileCache e s (slashes (m_filePath a))
             (savedEntry e a (slashes (m_filePath a)) ''meta'') of
        Throws err s' \<Rightarrow> Throws err s'
      | Returns u s' \<Rightarrow> Returns (slashes (m_filePath a)) s')"
  by (simp add: saveManual_def savedEntry_def Let_def truthy_def)

lemma saveManual_file:
  "\<not> m_meta a \<Longrightarrow> saveManual e s a =
     (let rel = slashes (pathRelative e (cwd e) (pathResolve e (m_filePath a)))
      in case sourceFiles s (pathResolve e (m_filePath a)) of
           None \<Rightarrow> Throws ReadFailed s
         | Some bytes \<Rightarrow>
             (case saveFileCache e s rel (savedEntry e a rel (sha1hex e bytes)) of
                Throws err s' \<Rightarrow> Throws err s'
              | Returns u s' \<Rightarrow> Returns rel s'))"
  by (simp add: saveManual_def savedEntry_def Let_def truthy_def fileHash_def split: option.splits)

lemma saveManual_Returns:
  assumes "saveManual e s a = Returns rel s'"
  shows "\<exists>h. saveFileCache e s rel (savedEntry e a rel h) = Returns () s' \<and>
     rel = (if m_meta a then slashes (m_filePath a)
            else slashes (pathRelative e (cwd e) (pathResolve e (m_filePath a)))) \<and>
     (if m_meta a then h = ''meta''
      else \<exists>bytes. sourceFiles s (pathResolve e (m_filePath a)) = Some bytes \<and> h = sha1hex e bytes)"
proof (cases "m_meta a")
  case True
  with assms show ?thesis
    by (auto simp: saveManual_meta split: result.splits)
next
  case False
  with assms show ?thesis
    by (auto simp: saveManual_file Let_def split: option.splits result.splits)
qed

lemma saveManual_Throws:
  "saveManual e s a = Throws err s' \<Longrightarrow> err = ReadFailed \<or> err = TypeError"
  by (cases "m_meta a")
     (auto simp: saveManual_meta saveManual_file Let_def split: option.splits result.splits
      dest: saveFileCache_Throws)

lemma sourceFiles_saveManual: "sourceFiles (stateAfter (saveManual e s a)) = sourceFiles s"
proof (cases "m_meta a")
  case True
  then show ?thesis
    using sourceFiles_saveFileCache [of e s "slashes (m_filePath a)"
        "savedEntry e a (slashes (m_filePath a)) ''meta''"]
    by (auto simp: saveManual_meta stateAfter_simps split: result.splits)
next
  case False
  show ?thesis
  proof (cases "sourceFiles s (pathResolve e (m_filePath a))")
    case None
    with False show ?thesis
      by (simp add: saveManual_file stateAfter_simps)
  next
    case (Some bytes)
    with False show ?thesis
      using sourceFiles_saveFileCache [of e s
          "slashes (pathRelative e (cwd e) (pathResolve e (m_filePath a)))"
          "savedEntry e a (slashes (pathRelative e (cwd e) (pathResolve e (m_filePath a))))
             (sha1hex e bytes)"]
      by (auto simp: saveManual_file stateAfter_simps Let_def split: result.splits)
  qed
qed

lemma findWhereUsed_example: "findWhereUsed exampleEnv ''src/a.ts'' = [''./src/b.ts'']"
  by (simp add: findWhereUsed_def exampleEnv_def js_trim_def isWhiteSpace_def js_startsWith_def)

lemma saveManual_example:
  "saveManual exampleEnv exampleTree exampleSave = Returns ''src/a.ts'' exampleSaved"
proof -
  have "(case saveManual exampleEnv exampleTree exampleSave of
           Throws err s' \<Rightarrow> False | Returns rel s' \<Rightarrow> rel = ''src/a.ts'')"
    by code_simp
  then show ?thesis
    by (simp add: exampleSaved_def stateAfter_simps split: result.splits)
qed

lemma saveFileCache_example:
  "saveFileCache exampleEnv exampleTree ''src/a.ts'' exampleStored = Returns () exampleSaved"
proof -
  obtain h where h: "saveFileCache exampleEnv exampleTree ''src/a.ts''
      (savedEntry exampleEnv exampleSave ''src/a.ts'' h) = Returns () exampleSaved"
    and "if m_meta exampleSave then h = ''meta''
      else \<exists>bytes. sourceFiles exampleTree (pathResolve exampleEnv (m_filePath exampleSave)) =
             Some bytes \<and> h = sha1hex exampleEnv bytes"
    using saveManual_Returns [OF saveManual_example] by blast
  then have "h = ''export const getUser = 1''"
    by (simp add: exampleSave_def exampleTree_def emptyStore_def exampleEnv_def)
  with h show ?thesis
    by (simp add: exampleStored_def)
qed

text \<open>
  Claim C2, as amended. After a successful \<^verbatim>\<open>saveManual\<close>, which returns the canonical
  path \<open>rel\<close>, other than the name \<^verbatim>\<open>__proto__\<close>, \<^verbatim>\<open>loadFileCache(rel)\<close> returns a card whose
  path is \<open>rel\<close> and whose symbols and keywords are those of the input; exports,
  dependencies, footguns and delta are those of the input when they are not empty and
  are absent otherwise; the summary is the input summary, followed by a line
  \<open>Used in: ...\<close> when the save is not a meta save and the search for files that
  mention the basename finds some; the hash is the sentinel \<open>meta\<close> for a meta save and
  otherwise the digest of the bytes of the saved file; the surface hash, the revision
  and the time stamp are those computed at the save.
\<close>

theorem load_after_saveManual:
  assumes "saveManual e s a = Returns rel s'" and "rel \<noteq> ''__proto__''"
  shows "\<exists>c. loadFileCache s' rel = Some (Typed c) \<and>
     rel = (if m_meta a then slashes (m_filePath a)
            else slashes (pathRelative e (cwd e) (pathResolve e (m_filePath a)))) \<and>
     path c = rel \<and>
     symbols c = m_symbols a \<and>
     fc_keywords c = Some (m_keywords a) \<and>
     exports c = (if nonEmpty (m_exports a) then m_exports a else None) \<and>
     dependencies c = (if nonEmpty (m_dependencies a) then m_dependencies a else None) \<and>
     footguns c = (if truthy (m_footguns a) then m_footguns a else None) \<and>
     delta c = (if truthy (m_delta a) then m_delta a else None) \<and>
     summary c =
       (if \<not> m_meta a \<and> findWhereUsed e rel \<noteq> []
        then m_summary a @ [CHR 0x0A] @ ''Used in: '' @ js_join '', '' (findWhereUsed e rel)
        else m_summary a) \<and>
     (if m_meta a then hash c = ''meta''
      else \<exists>bytes. sourceFiles s' (pathResolve e (m_filePath a)) = Some bytes \<and>
             hash c = sha1hex e bytes) \<and>
     publicSurfaceHash c =
       (if m_symbols a \<noteq> [] \<and> computePublicSurfaceHash e (m_symbols a) \<noteq> []
        then Some (computePublicSurfaceHash e (m_symbols a)) else None) \<and>
     repoHeadAtSave c = (if truthy (getGitHead e) then getGitHead e else None) \<and>
     updatedAt c = toISOString e"
proof -
  obtain h where h: "saveFileCache e s rel (savedEntry e a rel h) = Returns () s'"
    and r: "rel = (if m_meta a then slashes (m_filePath a)
            else slashes (pathRelative e (cwd e) (pathResolve e (m_filePath a))))"
    and b: "if m_meta a then h = ''meta''
      else \<exists>bytes. sourceFiles s (pathResolve e (m_filePath a)) = Some bytes \<and> h = sha1hex e bytes"
    using saveManual_Returns [OF assms(1)] by blast
  have l: "loadFileCache s' rel = Some (Typed (savedEntry e a rel h))"
    using h assms(2) by (rule loadFileCache_saveFileCache)
  have f: "sourceFiles s' = sourceFiles s"
    using sourceFiles_saveFileCache [of e s rel "savedEntry e a rel h"] h
    by (simp add: stateAfter_simps)
  from b f have "if m_meta a then h = ''meta''
      else \<exists>bytes. sourceFiles s' (pathResolve e (m_filePath a)) = Some bytes \<and> h = sha1hex e bytes"
    by simp
  moreover note r [symmetric]
  ultimately show ?thesis
    unfolding l by (simp add: savedEntry_def)
qed

theorem load_after_saveManual_witness:
  "saveManual exampleEnv exampleTree exampleSave = Returns ''src/a.ts'' exampleSaved \<and>
   ''src/a.ts'' \<noteq> ''__proto__'' \<and>
   (\<exists>c. loadFileCache exampleSaved ''src/a.ts'' = Some (Typed c) \<and>
      path c = ''src/a.ts'' \<and> symbols c = [''getUser''] \<and> fc_keywords c = Some [''dal''] \<and>
      dependencies c = None \<and>
      summary c = ''Users DAL'' @ [CHR 0x0A] @ ''Used in: ./src/b.ts'' \<and>
      hash c = ''export const getUser = 1'')"
proof -
  have n: "''src/a.ts'' \<noteq> ''__proto__''"
    by simp
  obtain c where c: "loadFileCache exampleSaved ''src/a.ts'' = Some (Typed c)"
    and "path c = ''src/a.ts''" "symbols c = m_symbols exampleSave"
    and "fc_keywords c = Some (m_keywords exampleSave)"
    and "dependencies c =
           (if nonEmpty (m_dependencies exampleSave) then m_dependencies exampleSave else None)"
    and "summary c =
       (if \<not> m_meta exampleSave \<and> findWhereUsed exampleEnv ''src/a.ts'' \<noteq> []
        then m_summary exampleSave @ [CHR 0x0A] @ ''Used in: '' @
             js_join '', '' (findWhereUsed exampleEnv ''src/a.ts'')
        else m_summary exampleSave)"
    and "if m_meta exampleSave then hash c = ''meta''
         else \<exists>bytes. sourceFiles exampleSaved (pathResolve exampleEnv (m_filePath exampleSave)) =
                  Some bytes \<and> hash c = sha1hex exampleEnv bytes"
    using load_after_saveManual [OF saveManual_example n] by blast
  moreover have "sourceFiles exampleSaved (pathResolve exampleEnv (m_filePath exampleSave)) =
      Some ''export const getUser = 1''"
    by (simp add: exampleSaved_def sourceFiles_saveManual exampleTree_def exampleEnv_def
        exampleSave_def)
  ultimately show ?thesis
    using saveManual_example
    by (simp add: findWhereUsed_example)
       (simp add: exampleSave_def exampleEnv_def nonEmpty_def)
qed

text \<open>
  Claim C2 as stated fails. The save of \<^verbatim>\<open>src/a.ts\<close> with the summary \<open>Users DAL\<close> and
  an empty dependency list, in a tree where another file mentions the basename, is
  loaded back with the summary \<open>Users DAL\<close> followed by the line \<open>Used in: ./src/b.ts\<close>
  and with no dependency list. The meta save of \<^verbatim>\<open>.meta/glossary\<close>, for which no file
  exists, is loaded back with the hash \<open>meta\<close>.
\<close>

theorem load_after_saveManual_counterexample:
  "m_summary exampleSave = ''Users DAL'' \<and>
   m_dependencies exampleSave = Some [] \<and>
   (case saveManual exampleEnv exampleTree exampleSave of
      Throws err s' \<Rightarrow> None
    | Returns rel s' \<Rightarrow>
        (case loadFileCache s' rel of
           Some (Typed c) \<Rightarrow> Some (summary c, dependencies c)
         | _ \<Rightarrow> None)) =
     Some (''Users DAL'' @ [CHR 0x0A] @ ''Used in: ./src/b.ts'', None) \<and>
   (case saveManual exampleEnv emptyStore exampleMetaSave of
      Throws err s' \<Rightarrow> None
    | Returns rel s' \<Rightarrow>
        (case loadFileCache s' rel of
           Some (Typed c) \<Rightarrow>
             Some (hash c, sourceFiles s' (pathResolve exampleEnv (m_filePath exampleMetaSave)))
         | _ \<Rightarrow> None)) =
     Some (''meta'', None)"
  by code_simp

lemma sourceFiles_exampleSaved:
  "sourceFiles exampleSaved = [''/repo/src/a.ts'' \<mapsto> ''export const getUser = 1'']"
  by (simp add: exampleSaved_def sourceFiles_saveManual exampleTree_def emptyStore_def)

section \<open>Saving a path again\<close>

lemma lookup_single:
  "lookupByKeywords s [k] = Inr ps \<Longrightarrow> set ps = set (bucketOf s k)"
  by (drule set_lookupByKeywords) simp

lemma lookup_single_Inl:
  "lookupByKeywords s [k] = Inl err \<Longrightarrow> k \<in> set inheritedNames \<and> bucketOf s k = []"
  using lookupByKeywords_Inl [of s "[k]"] by (auto simp: bucketOf_def orEmpty_def)

lemma fc_keywords_savedEntry: "fc_keywords (savedEntry e a rel h) = Some (m_keywords a)"
  by (simp add: savedEntry_def)

lemma resave_buckets:
  assumes "saveFileCache e1 s p d1 = Returns u1 s1"
    and "saveFileCache e2 s1 p d2 = Returns u2 s2"
    and "k \<in> set (orEmpty (fc_keywords d1))"
    and "k \<notin> set (orEmpty (fc_keywords d2))"
  shows "p \<in> set (bucketOf s1 k) \<and>
     (\<exists>ps. lookupByKeywords s1 [k] = Inr ps \<and> p \<in> set ps) \<and>
     p \<notin> set (bucketOf s2 k) \<and>
     (\<exists>ps. lookupByKeywords s2 [k] = Inr ps \<and> p \<notin> set ps)"
proof -
  have 1: "p \<in> set (bucketOf s1 k)"
    using assms(1,3) by (simp add: member_after_save)
  have 2: "p \<notin> set (bucketOf s2 k)"
    using assms(2,4) by (simp add: member_after_save)
  have 3: "\<exists>ps. lookupByKeywords s1 [k] = Inr ps \<and> p \<in> set ps"
  proof (cases "lookupByKeywords s1 [k]")
    case (Inl err)
    with 1 show ?thesis
      by (auto dest: lookup_single_Inl)
  next
    case (Inr ps)
    with 1 show ?thesis
      by (auto dest: lookup_single)
  qed
  have "\<not> (\<exists>err s'. saveFileCache e1 s p d1 = Throws err s')"
    using assms(1) by simp
  then have kept: "k \<in> set inheritedNames \<Longrightarrow> filter (\<lambda>x. x \<noteq> p) (bucketOf s k) \<noteq> []"
    using assms(3) unfolding saveFileCache_Throws_iff by blast
  have "bucketOf s2 k = filter (\<lambda>x. x \<noteq> p) (bucketOf s k)"
    using assms by (simp add: bucketOf_saveFileCache Let_def)
  with kept have own: "k \<in> set inheritedNames \<Longrightarrow> bucketOf s2 k \<noteq> []"
    by simp
  have 4: "\<exists>ps. lookupByKeywords s2 [k] = Inr ps \<and> p \<notin> set ps"
  proof (cases "lookupByKeywords s2 [k]")
    case (Inl err)
    with own show ?thesis
      by (auto dest: lookup_single_Inl)
  next
    case (Inr ps)
    with 2 show ?thesis
      by (auto dest: lookup_single)
  qed
  from 1 2 3 4 show ?thesis
    by simp
qed

text \<open>Two saves of a path \<open>p\<close> that both return leave no stale membership. Let \<open>k\<close> be a
  keyword of the first card that is not a keyword of the second card. After the first
  save the bucket of \<open>k\<close> lists \<open>p\<close> and \<^verbatim>\<open>lookupByKeywords([k])\<close> returns a list that
  contains \<open>p\<close>. After the second save the bucket of \<open>k\<close> no longer lists \<open>p\<close>, and
  \<^verbatim>\<open>lookupByKeywords([k])\<close> returns a list without \<open>p\<close>. This holds from every stored
  state \<open>s\<close>, for \<^verbatim>\<open>saveFileCache\<close> and for two calls of \<^verbatim>\<open>saveManual\<close> that return the same
  path.\<close>

lemma resave_returns_no_stale_keyword:
  "(saveFileCache e1 s p d1 = Returns u1 s1 \<and> saveFileCache e2 s1 p d2 = Returns u2 s2 \<and>
    k \<in> set (orEmpty (fc_keywords d1)) \<and> k \<notin> set (orEmpty (fc_keywords d2)) \<longrightarrow>
      p \<in> set (bucketOf s1 k) \<and>
      (\<exists>ps. lookupByKeywords s1 [k] = Inr ps \<and> p \<in> set ps) \<and>
      p \<notin> set (bucketOf s2 k) \<and>
      (\<exists>ps. lookupByKeywords s2 [k] = Inr ps \<and> p \<notin> set ps)) \<and>
   (saveManual e1 s a1 = Returns p s1 \<and> saveManual e2 s1 a2 = Returns p s2 \<and>
    k \<in> set (m_keywords a1) \<and> k \<notin> set (m_keywords a2) \<longrightarrow>
      p \<in> set (bucketOf s1 k) \<and>
      (\<exists>ps. lookupByKeywords s1 [k] = Inr ps \<and> p \<in> set ps) \<and>
      p \<notin> set (bucketOf s2 k) \<and>
      (\<exists>ps. lookupByKeywords s2 [k] = Inr ps \<and> p \<notin> set ps))"
proof -
  let ?after = "p \<in> set (bucketOf s1 k) \<and>
      (\<exists>ps. lookupByKeywords s1 [k] = Inr ps \<and> p \<in> set ps) \<and>
      p \<notin> set (bucketOf s2 k) \<and>
      (\<exists>ps. lookupByKeywords s2 [k] = Inr ps \<and> p \<notin> set ps)"
  have a: ?after
    if "saveFileCache e1 s p d1 = Returns u1 s1 \<and> saveFileCache e2 s1 p d2 = Returns u2 s2 \<and>
        k \<in> set (orEmpty (fc_keywords d1)) \<and> k \<notin> set (orEmpty (fc_keywords d2))"
    using that resave_buckets [of e1 s p d1 u1 s1 e2 d2 u2 s2 k] by blast
  have b: ?after
    if h: "saveManual e1 s a1 = Returns p s1 \<and> saveManual e2 s1 a2 = Returns p s2 \<and>
        k \<in> set (m_keywords a1) \<and> k \<notin> set (m_keywords a2)"
  proof -
    obtain h1 h2 where "saveFileCache e1 s p (savedEntry e1 a1 p h1) = Returns () s1"
      and "saveFileCache e2 s1 p (savedEntry e2 a2 p h2) = Returns () s2"
      using h saveManual_Returns [of e1 s a1 p s1] saveManual_Returns [of e2 s1 a2 p s2] by blast
    with h show ?thesis
      using resave_buckets
        [of e1 s p "savedEntry e1 a1 p h1" "()" s1 e2 "savedEntry e2 a2 p h2" "()" s2 k]
      by (simp add: fc_keywords_savedEntry orEmpty_def)
  qed
  from a b show ?thesis
    by blast
qed

text \<open>
  Claim C1. After a path is saved with a keyword set and saved again with another, no
  keyword of the first set that is missing from the second may still list the path. The
  code breaks this when the second save throws. The file \<^verbatim>\<open>src/a.ts\<close> is saved with the
  keyword \<open>dal\<close>, and \<^verbatim>\<open>lookupByKeywords(["dal"])\<close> returns it. It is saved again with the
  keyword \<open>constructor\<close>: \<^verbatim>\<open>saveFileCache\<close> writes the record of the new card, and then
  \<^verbatim>\<open>idx.keywordIndex["constructor"]\<close> is an inherited function with no method
  \<^verbatim>\<open>includes\<close>, so the save throws a \<^verbatim>\<open>TypeError\<close> before the index is written. Afterwards
  the stored card has the keyword \<open>constructor\<close> alone, and
  \<^verbatim>\<open>lookupByKeywords(["dal"])\<close> still returns \<^verbatim>\<open>src/a.ts\<close>. After a second save with the
  keyword \<open>auth\<close> instead, which returns, the lookup of \<open>dal\<close> is empty.
\<close>

theorem resave_throws_leaves_stale_keyword:
  "m_keywords exampleSave = [''dal''] \<and>
   m_keywords exampleThrowingResave = [''constructor''] \<and>
   (case saveManual exampleEnv exampleTree exampleSave of
      Throws err s1 \<Rightarrow> None
    | Returns rel s1 \<Rightarrow>
        Some (rel, lookupByKeywords s1 [''dal''],
          (case saveManual exampleEnv s1 exampleThrowingResave of
             Returns rel' s2 \<Rightarrow> None
           | Throws err s2 \<Rightarrow>
               Some (err,
                 (case loadFileCache s2 ''src/a.ts'' of
                    Some (Typed c) \<Rightarrow> Some (fc_keywords c)
                  | _ \<Rightarrow> None),
                 lookupByKeywords s2 [''dal''])))) =
     Some (''src/a.ts'', Inr [''src/a.ts''],
       Some (TypeError, Some (Some [''constructor'']), Inr [''src/a.ts''])) \<and>
   m_keywords exampleResave = [''auth''] \<and>
   lookupByKeywords exampleResaved [''dal''] = Inr []"
  by code_simp

section \<open>Staleness\<close>

lemma loadFileCache_listed:
  "loadFileCache s rel = Some cache \<Longrightarrow> rel \<in> set (objectKeys (files (loadIndex s)))"
  by (auto simp: loadFileCache_def js_get_def set_objectKeys split: option.splits if_splits
      dest: map_of_SomeD intro: rev_image_eqI)

lemma loadFileCache_sourceFiles [simp]:
  "loadFileCache (s\<lparr>sourceFiles := f\<rparr>) rel = loadFileCache s rel"
  by (simp add: loadFileCache_def loadIndex_def split: property.splits)

lemma staleEntries_classify:
  "loadFileCache s rel = Some (Typed cache) \<Longrightarrow>
   staleEntries e s rel =
     (case classify e s rel cache of
        Fresh \<Rightarrow> []
      | Stale \<Rightarrow> [\<lparr>stale_path = rel, reason = ''file content changed''\<rparr>]
      | Missing \<Rightarrow> [\<lparr>stale_path = rel, reason = ''file not found''\<rparr>])"
  by (auto simp: staleEntries_def classify_def fileHash_def split: option.splits)

lemma stalenessLines_classify:
  "stalenessLines e s rel cache =
     (case classify e s rel cache of
        Fresh \<Rightarrow> []
      | Stale \<Rightarrow> [warningSign @ '' Context outdated (file changed since last save)'']
      | Missing \<Rightarrow> [warningSign @ '' File not found (may have been deleted or moved)''])"
  by (auto simp: stalenessLines_def classify_def fileHash_def split: option.splits)

lemma staleEntries_path: "x \<in> set (staleEntries e s rel) \<Longrightarrow> stale_path x = rel"
proof (cases "loadFileCache s rel")
  case None
  then show "x \<in> set (staleEntries e s rel) \<Longrightarrow> stale_path x = rel"
    by (simp add: staleEntries_def)
next
  case (Some v)
  then show "x \<in> set (staleEntries e s rel) \<Longrightarrow> stale_path x = rel"
    by (cases v) (auto simp: staleEntries_def split: if_splits sum.splits)
qed

lemma getStale_at:
  "rel \<in> set (objectKeys (files (loadIndex s))) \<Longrightarrow>
   {x \<in> set (getStale e s). stale_path x = rel} = set (staleEntries e s rel)"
  by (auto simp: getStale_def dest: staleEntries_path)

lemma hash_savedEntry: "hash (savedEntry e a rel h) = h"
  by (simp add: savedEntry_def)

lemma loadFileCache_exampleSaved:
  "loadFileCache exampleSaved ''src/a.ts'' = Some (Typed exampleStored)"
  using saveFileCache_example by (rule loadFileCache_saveFileCache) simp

lemma hash_exampleStored: "hash exampleStored = ''export const getUser = 1''"
  by (simp add: exampleStored_def hash_savedEntry)

text \<open>
  Claim C3. The staleness of a card listed under the path \<open>rel\<close> is one of three
  classes, and the code computes the classification of the specification: a card with
  the hash \<open>meta\<close> is fresh in every state \<open>t\<close> of the file system; otherwise the file at
  \<open>rel\<close> is read and hashed again, an equal hash is fresh, an unequal hash is stale and
  a failed read is missing. \<^verbatim>\<open>getStale\<close> lists for \<open>rel\<close> nothing when the card is fresh,
  the reason \<open>file content changed\<close> when it is stale and the reason \<open>file not found\<close> when
  it is missing, whatever the other cards of the listing are; the whole listing is the
  concatenation of these per-card results (and of a line for each record that is the
  empty object, which is no card). \<^verbatim>\<open>getContext\<close> annotates the card in the same three
  ways.
\<close>

theorem staleness_three_way:
  assumes "loadFileCache s rel = Some (Typed cache)"
  shows "(hash cache = ''meta'' \<longrightarrow> classify e t rel cache = Fresh) \<and>
         (hash cache \<noteq> ''meta'' \<longrightarrow>
            classify e t rel cache =
              (case fileHash e t (pathResolve e rel) of
                 Inl err \<Rightarrow> Missing
               | Inr currentHash \<Rightarrow> if currentHash = hash cache then Fresh else Stale)) \<and>
         {x \<in> set (getStale e s). stale_path x = rel} =
           (case classify e s rel cache of
              Fresh \<Rightarrow> {}
            | Stale \<Rightarrow> {\<lparr>stale_path = rel, reason = ''file content changed''\<rparr>}
            | Missing \<Rightarrow> {\<lparr>stale_path = rel, reason = ''file not found''\<rparr>}) \<and>
         getStale e s =
           concat (map (\<lambda>r. case loadFileCache s r of
                              None \<Rightarrow> []
                            | Some EmptyObject \<Rightarrow>
                                (case fileHash e s (pathResolve e r) of
                                   Inr h \<Rightarrow> [\<lparr>stale_path = r, reason = ''file content changed''\<rparr>]
                                 | Inl err \<Rightarrow> [\<lparr>stale_path = r, reason = ''file not found''\<rparr>])
                            | Some (Typed c) \<Rightarrow>
                                (case classify e s r c of
                                   Fresh \<Rightarrow> []
                                 | Stale \<Rightarrow> [\<lparr>stale_path = r, reason = ''file content changed''\<rparr>]
                                 | Missing \<Rightarrow> [\<lparr>stale_path = r, reason = ''file not found''\<rparr>]))
                     (objectKeys (files (loadIndex s)))) \<and>
         stalenessLines e s rel cache =
           (case classify e s rel cache of
              Fresh \<Rightarrow> []
            | Stale \<Rightarrow> [warningSign @ '' Context outdated (file changed since last save)'']
            | Missing \<Rightarrow> [warningSign @ '' File not found (may have been deleted or moved)''])"
proof -
  have "classify e t rel cache =
           (if hash cache = ''meta'' then Fresh
            else case fileHash e t (pathResolve e rel) of
                   Inl err \<Rightarrow> Missing
                 | Inr currentHash \<Rightarrow> if currentHash = hash cache then Fresh else Stale)"
    by (simp add: classify_def fileHash_def split: option.splits)
  moreover have "{x \<in> set (getStale e s). stale_path x = rel} =
           (case classify e s rel cache of
              Fresh \<Rightarrow> {}
            | Stale \<Rightarrow> {\<lparr>stale_path = rel, reason = ''file content changed''\<rparr>}
            | Missing \<Rightarrow> {\<lparr>stale_path = rel, reason = ''file not found''\<rparr>})"
    using assms
    by (simp add: getStale_at loadFileCache_listed staleEntries_classify split: staleness.splits)
  moreover have "staleEntries e s = (\<lambda>r. case loadFileCache s r of
                              None \<Rightarrow> []
                            | Some EmptyObject \<Rightarrow>
                                (case fileHash e s (pathResolve e r) of
                                   Inr h \<Rightarrow> [\<lparr>stale_path = r, reason = ''file content changed''\<rparr>]
                                 | Inl err \<Rightarrow> [\<lparr>stale_path = r, reason = ''file not found''\<rparr>])
                            | Some (Typed c) \<Rightarrow>
                                (case classify e s r c of
                                   Fresh \<Rightarrow> []
                                 | Stale \<Rightarrow> [\<lparr>stale_path = r, reason = ''file content changed''\<rparr>]
                                 | Missing \<Rightarrow> [\<lparr>stale_path = r, reason = ''file not found''\<rparr>]))"
    by (rule ext)
       (simp add: staleEntries_classify split: option.splits parsed.splits,
        simp add: staleEntries_def)
  ultimately show ?thesis
    by (simp add: stalenessLines_classify getStale_def)
qed

theorem staleness_three_way_witness:
  "loadFileCache exampleSaved ''src/a.ts'' = Some (Typed exampleStored) \<and>
   classify exampleEnv exampleSaved ''src/a.ts'' exampleStored = Fresh \<and>
   {x \<in> set (getStale exampleEnv exampleSaved). stale_path x = ''src/a.ts''} = {} \<and>
   loadFileCache exampleEdited ''src/a.ts'' = Some (Typed exampleStored) \<and>
   classify exampleEnv exampleEdited ''src/a.ts'' exampleStored = Stale \<and>
   {x \<in> set (getStale exampleEnv exampleEdited). stale_path x = ''src/a.ts''} =
     {\<lparr>stale_path = ''src/a.ts'', reason = ''file content changed''\<rparr>} \<and>
   loadFileCache exampleDeleted ''src/a.ts'' = Some (Typed exampleStored) \<and>
   classify exampleEnv exampleDeleted ''src/a.ts'' exampleStored = Missing \<and>
   {x \<in> set (getStale exampleEnv exampleDeleted). stale_path x = ''src/a.ts''} =
     {\<lparr>stale_path = ''src/a.ts'', reason = ''file not found''\<rparr>}"
proof -
  have l1: "loadFileCache exampleSaved ''src/a.ts'' = Some (Typed exampleStored)"
    by (rule loadFileCache_exampleSaved)
  have l2: "loadFileCache exampleEdited ''src/a.ts'' = Some (Typed exampleStored)"
    by (simp add: exampleEdited_def loadFileCache_exampleSaved)
  have l3: "loadFileCache exampleDeleted ''src/a.ts'' = Some (Typed exampleStored)"
    by (simp add: exampleDeleted_def loadFileCache_exampleSaved)
  have c1: "classify exampleEnv exampleSaved ''src/a.ts'' exampleStored = Fresh"
    by (simp add: classify_def hash_exampleStored sourceFiles_exampleSaved) (simp add: exampleEnv_def)
  have c2: "classify exampleEnv exampleEdited ''src/a.ts'' exampleStored = Stale"
    by (simp add: classify_def hash_exampleStored exampleEdited_def) (simp add: exampleEnv_def)
  have c3: "classify exampleEnv exampleDeleted ''src/a.ts'' exampleStored = Missing"
    by (simp add: classify_def hash_exampleStored exampleDeleted_def)
  note listed =
    staleness_three_way [OF l1, where e = exampleEnv, THEN conjunct2, THEN conjunct2, THEN conjunct1]
    staleness_three_way [OF l2, where e = exampleEnv, THEN conjunct2, THEN conjunct2, THEN conjunct1]
    staleness_three_way [OF l3, where e = exampleEnv, THEN conjunct2, THEN conjunct2, THEN conjunct1]
  show ?thesis
    using l1 l2 l3 c1 c2 c3 listed by simp
qed

section \<open>Unreadable records\<close>

lemma getContext_listing: "\<not> truthy (q_symbol q) \<Longrightarrow> getContext e s q = listing e s q"
  by (auto simp: getContext_def truthy_def split: option.splits)



lemma loadFileCache_corrupt:
  "map_of (files (loadIndex s)) rel = Some entry \<Longrightarrow>
   filesDir s (entry_ref entry) = None \<or> filesDir s (entry_ref entry) = Some Corrupt \<Longrightarrow>
   loadFileCache s rel = None"
  by (auto simp: loadFileCache_def js_get_def readJson_def)

lemma loadAllSymbols_readable:
  "loadAllSymbols s =
     map (\<lambda>fname. the (readJson (symbolsDir s fname)))
       (filter (\<lambda>fname. readJson (symbolsDir s fname) \<noteq> None)
          (objectValues (loadSymbolsIndex s)))"
proof -
  have "concat (map (\<lambda>fname. case readJson (symbolsDir s fname) of Some c \<Rightarrow> [c] | None \<Rightarrow> []) xs) =
     map (\<lambda>fname. the (readJson (symbolsDir s fname)))
       (filter (\<lambda>fname. readJson (symbolsDir s fname) \<noteq> None) xs)" for xs
    by (induction xs) (auto split: option.splits)
  then show ?thesis
    by (simp add: loadAllSymbols_def)
qed

text \<open>A record whose file is missing or does not parse counts as absent: \<^verbatim>\<open>loadFileCache\<close>
  returns nothing for it, and the loops of \<^verbatim>\<open>getStale\<close> and of \<^verbatim>\<open>getContext\<close> add nothing
  for its path. \<^verbatim>\<open>loadAllSymbols\<close> is the list of the cards of the symbol records that
  parse, in the order of the symbol index.\<close>

lemma unparseable_records_are_skipped:
  "(map_of (files (loadIndex s)) rel = Some entry \<and>
    (filesDir s (entry_ref entry) = None \<or> filesDir s (entry_ref entry) = Some Corrupt) \<longrightarrow>
      loadFileCache s rel = None) \<and>
   (loadFileCache s rel = None \<longrightarrow>
      staleEntries e s rel = [] \<and> moduleBlock e s rf rel = Inr []) \<and>
   (symbolsDir s fname = None \<or> symbolsDir s fname = Some Corrupt \<longrightarrow>
      readJson (symbolsDir s fname) = None) \<and>
   loadAllSymbols s =
     map (\<lambda>fname. the (readJson (symbolsDir s fname)))
       (filter (\<lambda>fname. readJson (symbolsDir s fname) \<noteq> None)
          (objectValues (loadSymbolsIndex s)))"
proof (intro conjI)
  show "map_of (files (loadIndex s)) rel = Some entry \<and>
    (filesDir s (entry_ref entry) = None \<or> filesDir s (entry_ref entry) = Some Corrupt) \<longrightarrow>
      loadFileCache s rel = None"
    using loadFileCache_corrupt [of s rel entry] by simp
  show "loadFileCache s rel = None \<longrightarrow>
      staleEntries e s rel = [] \<and> moduleBlock e s rf rel = Inr []"
    by (simp add: staleEntries_def moduleBlock_def)
  show "symbolsDir s fname = None \<or> symbolsDir s fname = Some Corrupt \<longrightarrow>
      readJson (symbolsDir s fname) = None"
    by (auto simp: readJson_def)
  show "loadAllSymbols s =
     map (\<lambda>fname. the (readJson (symbolsDir s fname)))
       (filter (\<lambda>fname. readJson (symbolsDir s fname) \<noteq> None)
          (objectValues (loadSymbolsIndex s)))"
    by (rule loadAllSymbols_readable)
qed

text \<open>
  Claim C8. A record that is corrupt must be left out of every listing and must not make
  the listing fail. The code does that for a record whose file is missing or does not
  parse, as for the damaged record of the example: \<^verbatim>\<open>getContext\<close> returns the empty
  listing and \<^verbatim>\<open>getStale\<close> the empty list. It does not for a record that parses to a
  value that is no card, here the document \<^verbatim>\<open>{}\<close> in place of the record of
  \<^verbatim>\<open>src/a.ts\<close>: \<^verbatim>\<open>loadFileCache\<close> returns the empty object, \<^verbatim>\<open>getContext\<close> throws a
  \<^verbatim>\<open>TypeError\<close> at \<^verbatim>\<open>cache.symbols.length\<close>, and \<^verbatim>\<open>getStale\<close> lists the path as changed
  although the file is as it was saved.
\<close>

theorem non_card_record_aborts_listing:
  "loadFileCache exampleDamaged ''src/a.ts'' = None \<and>
   getContext exampleEnv exampleDamaged queryAll = Inr [] \<and>
   getStale exampleEnv exampleDamaged = [] \<and>
   loadFileCache exampleEmptied ''src/a.ts'' = Some EmptyObject \<and>
   getContext exampleEnv exampleEmptied queryAll = Inl TypeError \<and>
   map (\<lambda>x. (stale_path x, reason x)) (getStale exampleEnv exampleEmptied) =
     [(''src/a.ts'', ''file content changed'')] \<and>
   getStale exampleEnv exampleSaved = []"
  by code_simp

section \<open>Queries by keyword and by path\<close>

lemma pathsToShow_keywords:
  "q_keywords q = Some kws \<Longrightarrow> kws \<noteq> [] \<Longrightarrow> pathsToShow s q = lookupByKeywords s kws"
  by (cases "lookupByKeywords s kws") (simp_all add: pathsToShow_def)


lemma symbolsToShow_keywords:
  assumes "q_keywords q = Some kws" and "kws \<noteq> []"
  shows "symbolsToShow s q =
     filter (\<lambda>c. set (orEmpty (sc_keywords c)) \<inter> set kws \<noteq> {}) (loadAllSymbols s)"
proof -
  have "list_ex (\<lambda>k. case sc_keywords c of None \<Rightarrow> False | Some ks \<Rightarrow> k \<in> set ks) kws \<longleftrightarrow>
        set (orEmpty (sc_keywords c)) \<inter> set kws \<noteq> {}" for c
    by (cases "sc_keywords c") (auto simp: list_ex_iff orEmpty_def)
  then have "filter (\<lambda>c. list_ex (\<lambda>k. case sc_keywords c of None \<Rightarrow> False
                                        | Some ks \<Rightarrow> k \<in> set ks) kws) cs =
             filter (\<lambda>c. set (orEmpty (sc_keywords c)) \<inter> set kws \<noteq> {}) cs" for cs
    by (intro filter_cong) simp_all
  with assms show ?thesis
    by (simp add: symbolsToShow_def)
qed

lemma loadAllSymbols_modules [simp]:
  "loadAllSymbols (s\<lparr>indexFile := ix, filesDir := fd, sourceFiles := sf\<rparr>) = loadAllSymbols s"
  by (simp add: loadAllSymbols_def loadSymbolsIndex_def)

lemma symbolsToShow_modules:
  "symbolsToShow (s\<lparr>indexFile := ix, filesDir := fd, sourceFiles := sf\<rparr>) q = symbolsToShow s q"
  by (simp add: symbolsToShow_def)

text \<open>What a query with a keyword list that is not empty gives. When the lookup returns,
  the candidate module paths are the union of the buckets of the requested keywords,
  each path once; the lookup throws exactly when a requested keyword is the name of an
  inherited property and not a key of the keyword index. The symbol cards shown are the
  stored symbol cards whose own keywords meet the requested ones, in the order of the
  symbol index; they do not depend on the module index, the module records or the
  source files.\<close>

lemma keyword_query_result:
  assumes "q_keywords q = Some kws" and "kws \<noteq> []"
  shows "(case pathsToShow s q of
            Inl err \<Rightarrow> err = TypeError
          | Inr paths \<Rightarrow>
              set paths = (\<Union>k \<in> set kws. set (bucketOf s k)) \<and> distinct paths) \<and>
         ((\<exists>err. pathsToShow s q = Inl err) \<longleftrightarrow>
            (\<exists>k \<in> set kws. map_of (keywordIndex (loadIndex s)) k = None \<and>
               k \<in> set inheritedNames)) \<and>
         symbolsToShow s q =
           filter (\<lambda>c. set (orEmpty (sc_keywords c)) \<inter> set kws \<noteq> {}) (loadAllSymbols s) \<and>
         symbolsToShow (s\<lparr>indexFile := ix, filesDir := fd, sourceFiles := sf\<rparr>) q =
           symbolsToShow s q \<and>
         (\<not> truthy (q_symbol q) \<longrightarrow>
            getContext e s q =
              (case pathsToShow s q of
                 Inl err \<Rightarrow> Inl err
               | Inr paths \<Rightarrow>
                   (case moduleBlocks e s (relFilterOf e q) paths of
                      Inl err \<Rightarrow> Inl err
                    | Inr ls \<Rightarrow>
                        Inr (js_join [CHR 0x0A] (ls @ symbolSection (symbolsToShow s q))))))"
proof (intro conjI)
  show "case pathsToShow s q of
          Inl err \<Rightarrow> err = TypeError
        | Inr paths \<Rightarrow> set paths = (\<Union>k \<in> set kws. set (bucketOf s k)) \<and> distinct paths"
    using assms
    by (auto simp: pathsToShow_keywords split: sum.splits
        dest: lookupByKeywords_error set_lookupByKeywords distinct_lookupByKeywords)
  show "(\<exists>err. pathsToShow s q = Inl err) \<longleftrightarrow>
          (\<exists>k \<in> set kws. map_of (keywordIndex (loadIndex s)) k = None \<and> k \<in> set inheritedNames)"
    using assms by (simp add: pathsToShow_keywords lookupByKeywords_Inl)
  show "symbolsToShow s q =
          filter (\<lambda>c. set (orEmpty (sc_keywords c)) \<inter> set kws \<noteq> {}) (loadAllSymbols s)"
    using assms by (rule symbolsToShow_keywords)
  show "symbolsToShow (s\<lparr>indexFile := ix, filesDir := fd, sourceFiles := sf\<rparr>) q =
          symbolsToShow s q"
    by (rule symbolsToShow_modules)
  show "\<not> truthy (q_symbol q) \<longrightarrow>
          getContext e s q =
            (case pathsToShow s q of
               Inl err \<Rightarrow> Inl err
             | Inr paths \<Rightarrow>
                 (case moduleBlocks e s (relFilterOf e q) paths of
                    Inl err \<Rightarrow> Inl err
                  | Inr ls \<Rightarrow>
                      Inr (js_join [CHR 0x0A] (ls @ symbolSection (symbolsToShow s q)))))"
    by (simp add: getContext_listing listing_def)
qed

lemma keyword_query_example:
  "pathsToShow exampleSymbols (keywordQuery [''dal'', ''auth'']) = Inr [''src/a.ts''] \<and>
   pathsToShow exampleSymbols (keywordQuery [''auth'']) = Inr [] \<and>
   map sc_symbol (symbolsToShow exampleSymbols (keywordQuery [''auth''])) = [''FooBar''] \<and>
   symbolsToShow exampleSymbols (keywordQuery [''dal'']) = []"
  by code_simp

text \<open>
  Claim C4. A query with a keyword list resolves the module paths as the union of the
  buckets of the requested keywords. The code does that only when no requested keyword
  is the name of a property that every object inherits. For the keyword \<open>constructor\<close>
  and a store whose keyword index has no bucket of that name (here the empty store, and
  the store of the example), the union of the buckets is empty, so the query should
  print no module card; \<^verbatim>\<open>lookupByKeywords\<close> throws a \<^verbatim>\<open>TypeError\<close> instead, and so does
  \<^verbatim>\<open>getContext\<close>.
\<close>

theorem keyword_query_throws:
  "(\<Union>k \<in> set [''constructor'']. set (bucketOf emptyStore k)) = {} \<and>
   lookupByKeywords emptyStore [''constructor''] = Inl TypeError \<and>
   getContext exampleEnv emptyStore (keywordQuery [''constructor'']) = Inl TypeError \<and>
   (\<Union>k \<in> set [''dal'', ''constructor'']. set (bucketOf exampleSymbols k)) = {''src/a.ts''} \<and>
   getContext exampleEnv exampleSymbols (keywordQuery [''dal'', ''constructor'']) = Inl TypeError"
proof -
  have "bucketOf emptyStore ''constructor'' = []"
    and "bucketOf exampleSymbols ''constructor'' = []"
    and "bucketOf exampleSymbols ''dal'' = [''src/a.ts'']"
    by code_simp+
  moreover have "lookupByKeywords emptyStore [''constructor''] = Inl TypeError"
    and "getContext exampleEnv emptyStore (keywordQuery [''constructor'']) = Inl TypeError"
    and "getContext exampleEnv exampleSymbols (keywordQuery [''dal'', ''constructor'']) =
           Inl TypeError"
    by code_simp+
  ultimately show ?thesis
    by simp
qed










section \<open>Symbol lookup\<close>

lemma getContext_symbol:
  "wanted \<noteq> [] \<Longrightarrow>
   getContext e s \<lparr>q_filterPath = f, q_keywords = k, q_symbol = Some wanted\<rparr> =
     Inr (symbolLookup s wanted)"
  by (simp add: getContext_def)

lemma symbolLookup_found:
  "c \<in> set (loadAllSymbols s) \<Longrightarrow> js_toLowerCase (sc_symbol c) = js_toLowerCase wanted \<Longrightarrow>
   \<exists>m \<in> set (loadAllSymbols s). js_toLowerCase (sc_symbol m) = js_toLowerCase wanted \<and>
      symbolLookup s wanted = js_join [CHR 0x0A] (symbolDetail m)"
  by (auto simp: symbolLookup_def Let_def find_None_iff split: option.splits
      dest: find_Some_iff [THEN iffD1] intro: nth_mem)

lemma symbolLookup_miss:
  "\<forall>c \<in> set (loadAllSymbols s). js_toLowerCase (sc_symbol c) \<noteq> js_toLowerCase wanted \<Longrightarrow>
   symbolLookup s wanted = notFound wanted"
  by (auto simp: symbolLookup_def Let_def find_None_iff split: option.splits
      dest!: find_Some_iff [THEN iffD1])

lemma symbolLookup_cases:
  "symbolLookup s wanted = notFound wanted \<or>
   (\<exists>m \<in> set (loadAllSymbols s). js_toLowerCase (sc_symbol m) = js_toLowerCase wanted \<and>
      symbolLookup s wanted = js_join [CHR 0x0A] (symbolDetail m))"
  using symbolLookup_found [of _ s wanted] symbolLookup_miss [of s wanted] by blast








text \<open>
  Claim C10. When a query supplies a symbol name that is not empty, the result is that
  of the symbol lookup alone, whatever path filter and keyword list come with it: it
  is the text of a miss or the record of one stored symbol card whose lower-cased name
  is the lower-cased wanted name, and nothing else.
\<close>

theorem symbol_mode_takes_precedence:
  assumes "wanted \<noteq> []"
  shows "getContext e s \<lparr>q_filterPath = f, q_keywords = k, q_symbol = Some wanted\<rparr> =
           getContext e' s \<lparr>q_filterPath = None, q_keywords = None, q_symbol = Some wanted\<rparr> \<and>
         (getContext e s \<lparr>q_filterPath = f, q_keywords = k, q_symbol = Some wanted\<rparr> =
            Inr (notFound wanted) \<or>
          (\<exists>m \<in> set (loadAllSymbols s).
             js_toLowerCase (sc_symbol m) = js_toLowerCase wanted \<and>
             getContext e s \<lparr>q_filterPath = f, q_keywords = k, q_symbol = Some wanted\<rparr> =
               Inr (js_join [CHR 0x0A] (symbolDetail m))))"
  using assms symbolLookup_cases [of s wanted] by (simp add: getContext_symbol)

theorem symbol_mode_takes_precedence_witness:
  "''foobar'' \<noteq> [] \<and>
   getContext exampleEnv exampleSymbols
     \<lparr>q_filterPath = Some ''src'', q_keywords = Some [''dal''], q_symbol = Some ''foobar''\<rparr> =
   getContext exampleEnv exampleSymbols
     \<lparr>q_filterPath = None, q_keywords = None, q_symbol = Some ''foobar''\<rparr>"
proof -
  have n: "''foobar'' \<noteq> []"
    by simp
  from symbol_mode_takes_precedence [OF n] show ?thesis
    by simp
qed


section \<open>Checkpoints and the version-control context\<close>

lemma saveCheckpoint_fails_iff:
  "(\<exists>err s'. saveCheckpoint e s = Throws err s') \<longleftrightarrow>
     isl (gitRevParseHead e) \<or> isl (gitRevParseAbbrevRef e)"
  by (auto simp: saveCheckpoint_def Let_def split: sum.splits)

lemma saveManual_fails_iff:
  "(\<exists>err s'. saveManual e s a = Throws err s') \<longleftrightarrow>
     (\<not> m_meta a \<and> sourceFiles s (pathResolve e (m_filePath a)) = None) \<or>
     (\<exists>kw \<in> set (m_keywords a). kw \<in> set inheritedNames \<and>
        filter (\<lambda>x. x \<noteq> (if m_meta a then slashes (m_filePath a)
                            else slashes (pathRelative e (cwd e) (pathResolve e (m_filePath a)))))
          (bucketOf s kw) = [])"
proof (cases "m_meta a")
  case True
  have "(\<exists>err s'. saveManual e s a = Throws err s') \<longleftrightarrow>
        (\<exists>err s'. saveFileCache e s (slashes (m_filePath a))
                     (savedEntry e a (slashes (m_filePath a)) ''meta'') = Throws err s')"
    using True by (auto simp: saveManual_meta split: result.splits)
  with True show ?thesis
    by (simp add: saveFileCache_Throws_iff fc_keywords_savedEntry orEmpty_def)
next
  case False
  let ?rel = "slashes (pathRelative e (cwd e) (pathResolve e (m_filePath a)))"
  show ?thesis
  proof (cases "sourceFiles s (pathResolve e (m_filePath a))")
    case None
    with False show ?thesis
      by (simp add: saveManual_file)
  next
    case (Some bytes)
    have "(\<exists>err s'. saveManual e s a = Throws err s') \<longleftrightarrow>
          (\<exists>err s'. saveFileCache e s ?rel (savedEntry e a ?rel (sha1hex e bytes)) = Throws err s')"
      using False Some by (auto simp: saveManual_file Let_def split: result.splits)
    with False Some show ?thesis
      by (simp add: saveFileCache_Throws_iff fc_keywords_savedEntry orEmpty_def)
  qed
qed

lemma saveManual_fails_git:
  "(\<exists>err s'. saveManual (e\<lparr>gitRevParseHead := g, gitRevParseAbbrevRef := b\<rparr>) s a = Throws err s') \<longleftrightarrow>
   (\<exists>err s'. saveManual e s a = Throws err s')"
  unfolding saveManual_fails_iff by simp

lemma moduleBlock_git:
  "moduleBlock (e\<lparr>gitRevParseHead := g, gitRevParseAbbrevRef := b\<rparr>) s rf = moduleBlock e s rf"
  by (rule ext)
     (simp add: moduleBlock_def cardLines_def stalenessLines_def fileHash_def
        split: option.splits parsed.splits)

lemma moduleBlocks_git:
  "moduleBlocks (e\<lparr>gitRevParseHead := g, gitRevParseAbbrevRef := b\<rparr>) s rf paths =
     moduleBlocks e s rf paths"
  by (induction paths) (auto simp: moduleBlock_git split: sum.splits)

lemma relFilterOf_git:
  "relFilterOf (e\<lparr>gitRevParseHead := g, gitRevParseAbbrevRef := b\<rparr>) q = relFilterOf e q"
  by (simp add: relFilterOf_def split: option.splits)

lemma listing_git:
  "listing (e\<lparr>gitRevParseHead := g, gitRevParseAbbrevRef := b\<rparr>) s q = listing e s q"
  unfolding listing_def moduleBlocks_git relFilterOf_git ..

lemma getContext_git:
  "getContext (e\<lparr>gitRevParseHead := g, gitRevParseAbbrevRef := b\<rparr>) s q = getContext e s q"
  unfolding getContext_def listing_git ..

lemma getStale_git:
  "getStale (e\<lparr>gitRevParseHead := g, gitRevParseAbbrevRef := b\<rparr>) s = getStale e s"
proof -
  have "staleEntries (e\<lparr>gitRevParseHead := g, gitRevParseAbbrevRef := b\<rparr>) s = staleEntries e s"
    by (rule ext) (simp add: staleEntries_def fileHash_def split: option.splits parsed.splits)
  then show ?thesis
    by (simp add: getStale_def)
qed

lemma saveSymbol_git:
  "saveSymbol (e\<lparr>gitRevParseHead := g, gitRevParseAbbrevRef := b\<rparr>) s a = saveSymbol e s a"
  by (simp add: saveSymbol_def saveSymbolCard_def refFromPath_def Let_def)

lemma saveManual_exampleNoGit:
  "saveManual exampleNoGit exampleTree exampleSave = Returns ''src/a.ts'' exampleSavedNoGit"
proof -
  have "(case saveManual exampleNoGit exampleTree exampleSave of
           Throws err s' \<Rightarrow> False | Returns rel s' \<Rightarrow> rel = ''src/a.ts'')"
    by code_simp
  then show ?thesis
    by (simp add: exampleSavedNoGit_def stateAfter_simps split: result.splits)
qed

text \<open>
  Claim C7. \<^verbatim>\<open>saveCheckpoint\<close> fails exactly when one of its two git commands fails; when
  \<^verbatim>\<open>git rev-parse HEAD\<close> fails, it throws that error and writes nothing, and the
  checkpoint command prints the error with the hint about the git repository and exits
  with code 1. No other operation of the store passes a failure of git on:
  \<^verbatim>\<open>saveManual\<close> never throws the error of a command, it throws with git exactly when it
  throws without, and, without git, it stores the card with no revision (the stored
  record loads as a card whose revision is absent); \<^verbatim>\<open>saveSymbol\<close>,
  \<^verbatim>\<open>getContext\<close> and \<^verbatim>\<open>getStale\<close> do the same with and without git.
\<close>

theorem checkpoint_fails_without_git:
  "((\<exists>err s'. saveCheckpoint e s = Throws err s') \<longleftrightarrow>
      isl (gitRevParseHead e) \<or> isl (gitRevParseAbbrevRef e)) \<and>
   (gitRevParseHead e = Inl err \<longrightarrow>
      saveCheckpoint e s = Throws err s \<and>
      checkpointCommand e s =
        (\<lparr>stdout = [],
          stderr = [''Error: '' @ errorMessage err, ''Make sure you are inside a git repository.''],
          exitCode = 1\<rparr>, s)) \<and>
   saveManual e s a \<noteq> Throws (CommandFailed msg) t \<and>
   ((\<exists>err s'. saveManual (e\<lparr>gitRevParseHead := g, gitRevParseAbbrevRef := b\<rparr>) s a = Throws err s') \<longleftrightarrow>
    (\<exists>err s'. saveManual e s a = Throws err s')) \<and>
   (gitRevParseHead e = Inl err \<and> saveManual e s a = Returns rel s' \<and> rel \<noteq> ''__proto__'' \<longrightarrow>
      (\<exists>c. loadFileCache s' rel = Some (Typed c) \<and> repoHeadAtSave c = None)) \<and>
   saveSymbol (e\<lparr>gitRevParseHead := g, gitRevParseAbbrevRef := b\<rparr>) s sa = saveSymbol e s sa \<and>
   getContext (e\<lparr>gitRevParseHead := g, gitRevParseAbbrevRef := b\<rparr>) s q = getContext e s q \<and>
   getStale (e\<lparr>gitRevParseHead := g, gitRevParseAbbrevRef := b\<rparr>) s = getStale e s"
proof (intro conjI impI)
  show "(\<exists>err s'. saveCheckpoint e s = Throws err s') \<longleftrightarrow>
          isl (gitRevParseHead e) \<or> isl (gitRevParseAbbrevRef e)"
    by (rule saveCheckpoint_fails_iff)
  show "saveCheckpoint e s = Throws err s" if "gitRevParseHead e = Inl err"
    using that by (simp add: saveCheckpoint_def)
  show "checkpointCommand e s =
        (\<lparr>stdout = [],
          stderr = [''Error: '' @ errorMessage err, ''Make sure you are inside a git repository.''],
          exitCode = 1\<rparr>, s)" if "gitRevParseHead e = Inl err"
    using that by (simp add: checkpointCommand_def saveCheckpoint_def)
  show "saveManual e s a \<noteq> Throws (CommandFailed msg) t"
    using saveManual_Throws [of e s a "CommandFailed msg" t] by auto
  show "(\<exists>err s'. saveManual (e\<lparr>gitRevParseHead := g, gitRevParseAbbrevRef := b\<rparr>) s a = Throws err s') \<longleftrightarrow>
        (\<exists>err s'. saveManual e s a = Throws err s')"
    by (rule saveManual_fails_git)
  show "\<exists>c. loadFileCache s' rel = Some (Typed c) \<and> repoHeadAtSave c = None"
    if h: "gitRevParseHead e = Inl err \<and> saveManual e s a = Returns rel s' \<and> rel \<noteq> ''__proto__''"
  proof -
    from h have "getGitHead e = None"
      by (simp add: getGitHead_def)
    moreover from h obtain hs where "saveFileCache e s rel (savedEntry e a rel hs) = Returns () s'"
      using saveManual_Returns [of e s a rel s'] by blast
    then have "loadFileCache s' rel = Some (Typed (savedEntry e a rel hs))"
      using h by (intro loadFileCache_saveFileCache) simp_all
    ultimately show ?thesis
      by (simp add: savedEntry_def truthy_def)
  qed
  show "saveSymbol (e\<lparr>gitRevParseHead := g, gitRevParseAbbrevRef := b\<rparr>) s sa = saveSymbol e s sa"
    by (rule saveSymbol_git)
  show "getContext (e\<lparr>gitRevParseHead := g, gitRevParseAbbrevRef := b\<rparr>) s q = getContext e s q"
    by (rule getContext_git)
  show "getStale (e\<lparr>gitRevParseHead := g, gitRevParseAbbrevRef := b\<rparr>) s = getStale e s"
    by (rule getStale_git)
qed

theorem checkpoint_fails_without_git_witness:
  "gitRevParseHead exampleNoGit = Inl (CommandFailed ''fatal: not a git repository'') \<and>
   saveCheckpoint exampleNoGit emptyStore =
     Throws (CommandFailed ''fatal: not a git repository'') emptyStore \<and>
   checkpointCommand exampleNoGit emptyStore =
     (\<lparr>stdout = [],
       stderr = [''Error: fatal: not a git repository'',
                 ''Make sure you are inside a git repository.''],
       exitCode = 1\<rparr>, emptyStore) \<and>
   saveManual exampleNoGit exampleTree exampleSave = Returns ''src/a.ts'' exampleSavedNoGit \<and>
   ''src/a.ts'' \<noteq> ''__proto__'' \<and>
   (\<exists>c. loadFileCache exampleSavedNoGit ''src/a.ts'' = Some (Typed c) \<and> repoHeadAtSave c = None)"
proof -
  let ?err = "CommandFailed ''fatal: not a git repository''"
  have g: "gitRevParseHead exampleNoGit = Inl ?err"
    by (simp add: exampleNoGit_def)
  have n: "''src/a.ts'' \<noteq> ''__proto__''"
    by simp
  note a = checkpoint_fails_without_git
    [where e = exampleNoGit and err = ?err and s = emptyStore]
  note b = checkpoint_fails_without_git
    [where e = exampleNoGit and err = ?err and s = exampleTree and a = exampleSave
       and rel = "''src/a.ts''" and s' = exampleSavedNoGit]
  from a g have "saveCheckpoint exampleNoGit emptyStore = Throws ?err emptyStore"
    and "checkpointCommand exampleNoGit emptyStore =
     (\<lparr>stdout = [],
       stderr = [''Error: '' @ errorMessage ?err, ''Make sure you are inside a git repository.''],
       exitCode = 1\<rparr>, emptyStore)"
    by blast+
  moreover from b g n saveManual_exampleNoGit
  have "\<exists>c. loadFileCache exampleSavedNoGit ''src/a.ts'' = Some (Typed c) \<and> repoHeadAtSave c = None"
    by blast
  ultimately show ?thesis
    using g saveManual_exampleNoGit by (simp add: errorMessage_def)
qed

end
